theory Spec2Isabelle
  imports Main
begin

section \<open>Execution host\<close>

text \<open>
  The contracts are Algorand Python (\<open>algopy\<close>) classes. Every numeric value is a
  \<open>UInt64\<close>. The host aborts the whole call (no state is written) when an
  \<open>assert\<close> fails, when \<open>+\<close> or \<open>*\<close> leaves the 64-bit range, when \<open>-\<close>
  goes below zero, when \<open>//\<close> divides by zero, and when \<open>self.slot[account]\<close> reads
  a \<open>LocalState\<close> slot that was never written for that account. A \<open>UInt64\<close> is
  modelled as a \<open>nat\<close>, and every arithmetic operation and every read of a local
  slot is a checked operation that returns the abort as a value.

  \<open>Txn.sender\<close> and \<open>Global.latest_timestamp\<close> are explicit parameters
  \<open>sender\<close> and \<open>now\<close>; \<open>Global.creator_address\<close> is a parameter of each
  \<open>initialize\<close>. An account address is an abstract identity, here a number. A
  \<open>GlobalState\<close> slot is a record field; the contracts are looked at from their
  \<open>initialize\<close> on, which writes the global slots. A \<open>LocalState\<close> slot is a
  partial map from account addresses to values: \<open>None\<close> for an account the slot
  was never written for. Every account is taken to have opted in, so a write to a
  local slot always succeeds. Log output and the constant strings the methods return
  are left out.

  Names are the source's. A subroutine whose name starts with an underscore carries
  the prefix \<open>priv_\<close>; a field or method name that several contracts share
  (\<open>admin\<close>, \<open>is_paused\<close>, \<open>initialize\<close>, \<open>fee_denominator\<close>, \<open>threshold_price\<close>,
  \<open>owner\<close>, \<open>name\<close>, \<open>symbol\<close>) carries a prefix naming its contract.
\<close>

type_synonym address = nat
type_synonym uint64 = nat
type_synonym local_state = "address \<Rightarrow> uint64 option"

datatype error = Assertion_failed string | Overflow | Underflow | Division_by_zero | Unset_local_state

definition u64_limit :: nat where
  "u64_limit = 2 ^ 64"

definition and_then :: "error + 'a \<Rightarrow> ('a \<Rightarrow> error + 'b) \<Rightarrow> error + 'b" where
  "and_then m f = (case m of Inl e \<Rightarrow> Inl e | Inr v \<Rightarrow> f v)"

definition require :: "bool \<Rightarrow> string \<Rightarrow> error + unit" where
  "require c msg = (if c then Inr () else Inl (Assertion_failed msg))"

definition add64 :: "uint64 \<Rightarrow> uint64 \<Rightarrow> error + uint64" where
  "add64 a b = (if a + b < u64_limit then Inr (a + b) else Inl Overflow)"

definition sub64 :: "uint64 \<Rightarrow> uint64 \<Rightarrow> error + uint64" where
  "sub64 a b = (if b \<le> a then Inr (a - b) else Inl Underflow)"

definition mul64 :: "uint64 \<Rightarrow> uint64 \<Rightarrow> error + uint64" where
  "mul64 a b = (if a * b < u64_limit then Inr (a * b) else Inl Overflow)"

definition div64 :: "uint64 \<Rightarrow> uint64 \<Rightarrow> error + uint64" where
  "div64 a b = (if b = 0 then Inl Division_by_zero else Inr (a div b))"

text \<open>\<open>self.slot[account]\<close> as a read.\<close>

definition local_get :: "local_state \<Rightarrow> address \<Rightarrow> error + uint64" where
  "local_get slot account = (case slot account of None \<Rightarrow> Inl Unset_local_state | Some v \<Rightarrow> Inr v)"

text \<open>
  What a slot holds for an account when balances are added up: the stored value, and
  nothing where the slot is unset.
\<close>

definition held :: "local_state \<Rightarrow> address \<Rightarrow> nat" where
  "held slot account = (case slot account of None \<Rightarrow> 0 | Some v \<Rightarrow> v)"

section \<open>SimpleAMM (simple\_amm/contract.py)\<close>

record amm_state =
  amm_admin :: address
  reserve_a :: uint64
  reserve_b :: uint64
  fee_rate :: uint64
  amm_is_paused :: uint64
  total_liquidity :: uint64
  liquidity_balance :: local_state
  token_a_deposited :: local_state
  token_b_deposited :: local_state

definition amm_fee_denominator :: uint64 where
  "amm_fee_denominator = 1000"

text \<open>The state of a newly created application, before \<open>initialize\<close>.\<close>

definition amm_created :: amm_state where
  "amm_created = \<lparr>amm_admin = 0, reserve_a = 0, reserve_b = 0, fee_rate = 0,
     amm_is_paused = 0, total_liquidity = 0, liquidity_balance = Map.empty,
     token_a_deposited = Map.empty, token_b_deposited = Map.empty\<rparr>"

definition amm_initialize :: "address \<Rightarrow> amm_state \<Rightarrow> address \<Rightarrow> error + amm_state" where
  "amm_initialize creator_address s sender =
     and_then (require (sender = creator_address) ''Only creator can initialize'') (\<lambda>_.
     Inr (s\<lparr>amm_admin := sender, reserve_a := 0, reserve_b := 0, fee_rate := 3,
            amm_is_paused := 0, total_liquidity := 0\<rparr>))"

text \<open>\<open>_get_amount_out\<close>\<close>

definition priv_get_amount_out :: "amm_state \<Rightarrow> uint64 \<Rightarrow> uint64 \<Rightarrow> uint64 \<Rightarrow> error + uint64" where
  "priv_get_amount_out s amount_in reserve_in reserve_out =
     and_then (require (amount_in > 0) ''Amount must be positive'') (\<lambda>_.
     and_then (require (reserve_in > 0 \<and> reserve_out > 0) ''Insufficient liquidity'') (\<lambda>_.
     and_then (sub64 amm_fee_denominator (fee_rate s)) (\<lambda>fee_complement.
     and_then (mul64 amount_in fee_complement) (\<lambda>amount_in_with_fee.
     and_then (mul64 amount_in_with_fee reserve_out) (\<lambda>numerator.
     and_then (mul64 reserve_in amm_fee_denominator) (\<lambda>scaled_reserve_in.
     and_then (add64 scaled_reserve_in amount_in_with_fee) (\<lambda>denominator.
     div64 numerator denominator)))))))"

definition get_amount_out :: "amm_state \<Rightarrow> uint64 \<Rightarrow> uint64 \<Rightarrow> uint64 \<Rightarrow> error + uint64" where
  "get_amount_out s amount_in reserve_in reserve_out =
     priv_get_amount_out s amount_in reserve_in reserve_out"

text \<open>
  \<open>_sqrt\<close>: Newton iteration, at most 10 rounds. The loop counter stays below
  11, so its increment cannot leave the 64-bit range and is written unchecked.
\<close>

function sqrt_loop :: "uint64 \<Rightarrow> uint64 \<Rightarrow> uint64 \<Rightarrow> uint64 \<Rightarrow> error + uint64" where
  "sqrt_loop x z y counter =
     (if y < z \<and> counter < 10 then
        and_then (div64 x y) (\<lambda>q.
        and_then (add64 q y) (\<lambda>t.
        and_then (div64 t 2) (\<lambda>y'.
        sqrt_loop x y y' (counter + 1))))
      else Inr z)"
  by pat_completeness auto
termination
  by (relation "measure (\<lambda>(x, z, y, counter). 10 - counter)") auto

definition priv_sqrt :: "uint64 \<Rightarrow> error + uint64" where
  "priv_sqrt x =
     (if x = 0 then Inr 0
      else and_then (add64 x 1) (\<lambda>x1.
           and_then (div64 x1 2) (\<lambda>y.
           sqrt_loop x x y 0)))"

text \<open>
  \<open>add_liquidity\<close>. The result carries, next to the new state, the value of the
  local \<open>liquidity_tokens\<close>: the shares the deposit minted.
\<close>

definition add_liquidity :: "amm_state \<Rightarrow> address \<Rightarrow> uint64 \<Rightarrow> uint64 \<Rightarrow> error + (amm_state \<times> uint64)" where
  "add_liquidity s sender amount_a amount_b =
     and_then (require (amm_is_paused s = 0) ''AMM is paused'') (\<lambda>_.
     and_then (require (amount_a > 0 \<and> amount_b > 0) ''Amounts must be positive'') (\<lambda>_.
     let current_reserve_a = reserve_a s; current_reserve_b = reserve_b s in
     and_then
       (if current_reserve_a = 0 \<and> current_reserve_b = 0 then
          and_then (mul64 amount_a amount_b) (\<lambda>product.
          and_then (priv_sqrt product) (\<lambda>liquidity_tokens.
          Inr (s\<lparr>reserve_a := amount_a, reserve_b := amount_b,
                 liquidity_balance := (liquidity_balance s)(sender \<mapsto> liquidity_tokens),
                 total_liquidity := liquidity_tokens\<rparr>, liquidity_tokens)))
        else
          and_then (mul64 amount_a current_reserve_b) (\<lambda>scaled_a.
          and_then (div64 scaled_a current_reserve_a) (\<lambda>required_b.
          and_then (mul64 amount_b current_reserve_a) (\<lambda>scaled_b.
          and_then (div64 scaled_b current_reserve_b) (\<lambda>required_a.
          and_then
            (if required_b \<le> amount_b then
               and_then (add64 current_reserve_a amount_a) (\<lambda>new_reserve_a.
               and_then (add64 current_reserve_b required_b) (\<lambda>new_reserve_b.
               and_then (mul64 amount_a (total_liquidity s)) (\<lambda>weighted.
               and_then (div64 weighted current_reserve_a) (\<lambda>liquidity_tokens.
               Inr (s\<lparr>reserve_a := new_reserve_a, reserve_b := new_reserve_b\<rparr>,
                    liquidity_tokens)))))
             else
               and_then (add64 current_reserve_a required_a) (\<lambda>new_reserve_a.
               and_then (add64 current_reserve_b amount_b) (\<lambda>new_reserve_b.
               and_then (mul64 amount_b (total_liquidity s)) (\<lambda>weighted.
               and_then (div64 weighted current_reserve_b) (\<lambda>liquidity_tokens.
               Inr (s\<lparr>reserve_a := new_reserve_a, reserve_b := new_reserve_b\<rparr>,
                    liquidity_tokens))))))
            (\<lambda>(s1, liquidity_tokens).
               and_then (local_get (liquidity_balance s1) sender) (\<lambda>current_balance.
               and_then (add64 current_balance liquidity_tokens) (\<lambda>new_balance.
               and_then (add64 (total_liquidity s1) liquidity_tokens) (\<lambda>new_total.
               Inr (s1\<lparr>liquidity_balance := (liquidity_balance s1)(sender \<mapsto> new_balance),
                       total_liquidity := new_total\<rparr>, liquidity_tokens))))))))))
       (\<lambda>(s2, liquidity_tokens).
          and_then (local_get (token_a_deposited s2) sender) (\<lambda>current_a.
          and_then (add64 current_a amount_a) (\<lambda>deposited_a.
          and_then (local_get (token_b_deposited s2) sender) (\<lambda>current_b.
          and_then (add64 current_b amount_b) (\<lambda>deposited_b.
          Inr (s2\<lparr>token_a_deposited := (token_a_deposited s2)(sender \<mapsto> deposited_a),
                  token_b_deposited := (token_b_deposited s2)(sender \<mapsto> deposited_b)\<rparr>,
               liquidity_tokens))))))))"

definition swap_a_for_b :: "amm_state \<Rightarrow> uint64 \<Rightarrow> error + amm_state" where
  "swap_a_for_b s amount_in =
     and_then (require (amm_is_paused s = 0) ''AMM is paused'') (\<lambda>_.
     and_then (require (amount_in > 0) ''Amount must be positive'') (\<lambda>_.
     let current_reserve_a = reserve_a s; current_reserve_b = reserve_b s in
     and_then (require (current_reserve_a > 0 \<and> current_reserve_b > 0) ''Insufficient liquidity'') (\<lambda>_.
     and_then (priv_get_amount_out s amount_in current_reserve_a current_reserve_b) (\<lambda>amount_out.
     and_then (require (amount_out > 0) ''Insufficient output amount'') (\<lambda>_.
     and_then (require (amount_out \<le> current_reserve_b) ''Insufficient liquidity'') (\<lambda>_.
     and_then (add64 current_reserve_a amount_in) (\<lambda>new_reserve_a.
     and_then (sub64 current_reserve_b amount_out) (\<lambda>new_reserve_b.
     Inr (s\<lparr>reserve_a := new_reserve_a, reserve_b := new_reserve_b\<rparr>)))))))))"

definition swap_b_for_a :: "amm_state \<Rightarrow> uint64 \<Rightarrow> error + amm_state" where
  "swap_b_for_a s amount_in =
     and_then (require (amm_is_paused s = 0) ''AMM is paused'') (\<lambda>_.
     and_then (require (amount_in > 0) ''Amount must be positive'') (\<lambda>_.
     let current_reserve_a = reserve_a s; current_reserve_b = reserve_b s in
     and_then (require (current_reserve_a > 0 \<and> current_reserve_b > 0) ''Insufficient liquidity'') (\<lambda>_.
     and_then (priv_get_amount_out s amount_in current_reserve_b current_reserve_a) (\<lambda>amount_out.
     and_then (require (amount_out > 0) ''Insufficient output amount'') (\<lambda>_.
     and_then (require (amount_out \<le> current_reserve_a) ''Insufficient liquidity'') (\<lambda>_.
     and_then (add64 current_reserve_b amount_in) (\<lambda>new_reserve_b.
     and_then (sub64 current_reserve_a amount_out) (\<lambda>new_reserve_a.
     Inr (s\<lparr>reserve_b := new_reserve_b, reserve_a := new_reserve_a\<rparr>)))))))))"









section \<open>StakingDapp (staking\_dapp/contract.py)\<close>

text \<open>
  \<open>reward_amount\<close> and \<open>reward_interval\<close> are assigned in \<open>__init__\<close> and again
  in \<open>update_reward_parameters\<close>, so they are part of the state.
  \<open>precision_factor\<close> is assigned once.
\<close>

record staking_state =
  stk_admin :: address
  reward_name :: string
  reward_symbol :: string
  stk_is_paused :: uint64
  total_staked :: uint64
  total_rewards_distributed :: uint64
  reward_amount :: uint64
  reward_interval :: uint64
  staked_amount :: local_state
  last_reward_time :: local_state
  reward_balance :: local_state

definition precision_factor :: uint64 where
  "precision_factor = 1000000000"

definition staking_created :: staking_state where
  "staking_created = \<lparr>stk_admin = 0, reward_name = [], reward_symbol = [],
     stk_is_paused = 0, total_staked = 0, total_rewards_distributed = 0,
     reward_amount = 5, reward_interval = 10, staked_amount = Map.empty,
     last_reward_time = Map.empty, reward_balance = Map.empty\<rparr>"

definition staking_initialize :: "address \<Rightarrow> staking_state \<Rightarrow> address \<Rightarrow> string \<Rightarrow> string \<Rightarrow> error + staking_state" where
  "staking_initialize creator_address s sender new_name new_symbol =
     and_then (require (sender = creator_address) ''Only creator can initialize'') (\<lambda>_.
     Inr (s\<lparr>stk_admin := sender, reward_name := new_name, reward_symbol := new_symbol,
            stk_is_paused := 0, total_staked := 0, total_rewards_distributed := 0\<rparr>))"

text \<open>\<open>_calculate_reward_internal\<close>\<close>

definition priv_calculate_reward_internal :: "staking_state \<Rightarrow> address \<Rightarrow> uint64 \<Rightarrow> error + uint64" where
  "priv_calculate_reward_internal s sender now =
     and_then (local_get (staked_amount s) sender) (\<lambda>user_staked.
     if user_staked = 0 then Inr 0
     else
       and_then (local_get (last_reward_time s) sender) (\<lambda>last_time.
       let current_time = now in
       if current_time \<le> last_time then Inr 0
       else
         and_then (sub64 current_time last_time) (\<lambda>time_passed.
         and_then (div64 time_passed (reward_interval s)) (\<lambda>intervals.
         and_then (mul64 intervals (reward_amount s)) (\<lambda>interval_reward.
         and_then (mul64 interval_reward user_staked) (\<lambda>scaled_reward.
         div64 scaled_reward precision_factor))))))"

definition calculate_pending_rewards :: "staking_state \<Rightarrow> address \<Rightarrow> uint64 \<Rightarrow> error + uint64" where
  "calculate_pending_rewards s sender now = priv_calculate_reward_internal s sender now"

text \<open>\<open>_update_rewards\<close>\<close>

definition priv_update_rewards :: "staking_state \<Rightarrow> address \<Rightarrow> uint64 \<Rightarrow> error + staking_state" where
  "priv_update_rewards s sender now =
     and_then (priv_calculate_reward_internal s sender now) (\<lambda>pending_reward.
     and_then
       (if pending_reward > 0 then
          and_then (local_get (reward_balance s) sender) (\<lambda>current_balance.
          and_then (add64 current_balance pending_reward) (\<lambda>new_balance.
          Inr (s\<lparr>reward_balance := (reward_balance s)(sender \<mapsto> new_balance)\<rparr>)))
        else Inr s)
       (\<lambda>s1. Inr (s1\<lparr>last_reward_time := (last_reward_time s1)(sender \<mapsto> now)\<rparr>)))"

definition stake :: "staking_state \<Rightarrow> address \<Rightarrow> uint64 \<Rightarrow> uint64 \<Rightarrow> error + staking_state" where
  "stake s sender now amount =
     and_then (require (stk_is_paused s = 0) ''Staking is paused'') (\<lambda>_.
     and_then (require (amount > 0) ''Amount must be positive'') (\<lambda>_.
     and_then (priv_update_rewards s sender now) (\<lambda>s1.
     and_then (local_get (staked_amount s1) sender) (\<lambda>current_staked.
     and_then (add64 current_staked amount) (\<lambda>new_staked.
     and_then (add64 (total_staked s1) amount) (\<lambda>new_total.
     Inr (s1\<lparr>staked_amount := (staked_amount s1)(sender \<mapsto> new_staked),
             total_staked := new_total,
             last_reward_time := (last_reward_time s1)(sender \<mapsto> now)\<rparr>)))))))"

definition unstake :: "staking_state \<Rightarrow> address \<Rightarrow> uint64 \<Rightarrow> uint64 \<Rightarrow> error + staking_state" where
  "unstake s sender now amount =
     and_then (require (stk_is_paused s = 0) ''Staking is paused'') (\<lambda>_.
     and_then (require (amount > 0) ''Amount must be positive'') (\<lambda>_.
     and_then (local_get (staked_amount s) sender) (\<lambda>current_staked.
     and_then (require (current_staked \<ge> amount) ''Insufficient staked amount'') (\<lambda>_.
     and_then (priv_update_rewards s sender now) (\<lambda>s1.
     and_then (sub64 current_staked amount) (\<lambda>new_staked.
     and_then (sub64 (total_staked s1) amount) (\<lambda>new_total.
     Inr (s1\<lparr>staked_amount := (staked_amount s1)(sender \<mapsto> new_staked),
             total_staked := new_total,
             last_reward_time := (last_reward_time s1)(sender \<mapsto> now)\<rparr>))))))))"

definition claim_rewards :: "staking_state \<Rightarrow> address \<Rightarrow> uint64 \<Rightarrow> error + staking_state" where
  "claim_rewards s sender now =
     and_then (require (stk_is_paused s = 0) ''Staking is paused'') (\<lambda>_.
     and_then (priv_update_rewards s sender now) (\<lambda>s1.
     and_then (local_get (reward_balance s1) sender) (\<lambda>current_reward_balance.
     and_then (require (current_reward_balance > 0) ''No rewards to claim'') (\<lambda>_.
     and_then (add64 (total_rewards_distributed s1) current_reward_balance) (\<lambda>new_distributed.
     Inr (s1\<lparr>reward_balance := (reward_balance s1)(sender \<mapsto> 0),
             total_rewards_distributed := new_distributed\<rparr>))))))"

definition update_reward_parameters :: "staking_state \<Rightarrow> address \<Rightarrow> uint64 \<Rightarrow> uint64 \<Rightarrow> error + staking_state" where
  "update_reward_parameters s sender new_reward_amount new_reward_interval =
     and_then (require (sender = stk_admin s) ''Only admin can update'') (\<lambda>_.
     and_then (require (new_reward_amount > 0) ''Reward amount must be positive'') (\<lambda>_.
     and_then (require (new_reward_interval > 0) ''Reward interval must be positive'') (\<lambda>_.
     Inr (s\<lparr>reward_amount := new_reward_amount, reward_interval := new_reward_interval\<rparr>))))"

definition emergency_withdraw :: "staking_state \<Rightarrow> address \<Rightarrow> error + staking_state" where
  "emergency_withdraw s sender =
     and_then (local_get (staked_amount s) sender) (\<lambda>current_staked.
     and_then (require (current_staked > 0) ''No tokens staked'') (\<lambda>_.
     and_then (sub64 (total_staked s) current_staked) (\<lambda>new_total.
     Inr (s\<lparr>staked_amount := (staked_amount s)(sender \<mapsto> 0),
            total_staked := new_total\<rparr>))))"

definition pause_staking :: "staking_state \<Rightarrow> address \<Rightarrow> error + staking_state" where
  "pause_staking s sender =
     and_then (require (sender = stk_admin s) ''Only admin can pause'') (\<lambda>_.
     Inr (s\<lparr>stk_is_paused := 1\<rparr>))"

definition unpause_staking :: "staking_state \<Rightarrow> address \<Rightarrow> error + staking_state" where
  "unpause_staking s sender =
     and_then (require (sender = stk_admin s) ''Only admin can unpause'') (\<lambda>_.
     Inr (s\<lparr>stk_is_paused := 0\<rparr>))"

definition compound_rewards :: "staking_state \<Rightarrow> address \<Rightarrow> uint64 \<Rightarrow> error + staking_state" where
  "compound_rewards s sender now =
     and_then (require (stk_is_paused s = 0) ''Staking is paused'') (\<lambda>_.
     and_then (priv_update_rewards s sender now) (\<lambda>s1.
     and_then (local_get (reward_balance s1) sender) (\<lambda>current_reward_balance.
     and_then (require (current_reward_balance > 0) ''No rewards to compound'') (\<lambda>_.
     and_then (local_get (staked_amount s1) sender) (\<lambda>current_staked.
     and_then (add64 current_staked current_reward_balance) (\<lambda>new_staked.
     and_then (add64 (total_staked s1) current_reward_balance) (\<lambda>new_total.
     Inr (s1\<lparr>reward_balance := (reward_balance s1)(sender \<mapsto> 0),
             staked_amount := (staked_amount s1)(sender \<mapsto> new_staked),
             total_staked := new_total,
             last_reward_time := (last_reward_time s1)(sender \<mapsto> now)\<rparr>))))))))"





section \<open>PriceOracle (price\_oracle/contract.py)\<close>

record oracle_state =
  orc_admin :: address
  circuit_breaker_active :: uint64
  orc_is_paused :: uint64
  updater_count :: uint64
  token_price :: uint64
  price_timestamp :: uint64
  price_confidence :: uint64
  price_updater :: address
  orc_threshold_price :: uint64
  threshold_active :: uint64
  threshold_setter :: address
  is_updater :: local_state

definition max_price_deviation :: uint64 where
  "max_price_deviation = 1000"

definition min_update_interval :: uint64 where
  "min_update_interval = 300"

definition staleness_threshold :: uint64 where
  "staleness_threshold = 3600"

definition oracle_created :: oracle_state where
  "oracle_created = \<lparr>orc_admin = 0, circuit_breaker_active = 0, orc_is_paused = 0,
     updater_count = 0, token_price = 0, price_timestamp = 0, price_confidence = 0,
     price_updater = 0, orc_threshold_price = 0, threshold_active = 0,
     threshold_setter = 0, is_updater = Map.empty\<rparr>"

definition oracle_initialize :: "address \<Rightarrow> oracle_state \<Rightarrow> address \<Rightarrow> error + oracle_state" where
  "oracle_initialize creator_address s sender =
     and_then (require (sender = creator_address) ''Only creator can initialize'') (\<lambda>_.
     Inr (s\<lparr>orc_admin := sender, circuit_breaker_active := 0, orc_is_paused := 0,
            token_price := 0, price_timestamp := 0, price_confidence := 0,
            orc_threshold_price := 0, threshold_active := 0,
            is_updater := (is_updater s)(sender \<mapsto> 1), updater_count := 1\<rparr>))"

text \<open>\<open>_calculate_deviation\<close>\<close>

definition priv_calculate_deviation :: "uint64 \<Rightarrow> uint64 \<Rightarrow> error + uint64" where
  "priv_calculate_deviation old_price new_price =
     (if old_price = 0 then Inr 0
      else if old_price > new_price then
        and_then (sub64 old_price new_price) (\<lambda>difference.
        and_then (mul64 difference 10000) (\<lambda>scaled.
        div64 scaled old_price))
      else
        and_then (sub64 new_price old_price) (\<lambda>difference.
        and_then (mul64 difference 10000) (\<lambda>scaled.
        div64 scaled old_price)))"

text \<open>
  The test \<open>Txn.sender.bytes == self.admin.value or self.is_updater[Txn.sender] == 1\<close>
  of \<open>update_price\<close> and \<open>set_threshold\<close>: \<open>or\<close> evaluates its right operand, the
  read of the local slot, only when the left one is false.
\<close>

definition is_authorized :: "oracle_state \<Rightarrow> address \<Rightarrow> error + bool" where
  "is_authorized s sender =
     (if sender = orc_admin s then Inr True
      else and_then (local_get (is_updater s) sender) (\<lambda>flag. Inr (flag = 1)))"

text \<open>
  \<open>update_price\<close>. The closing call of \<open>_check_threshold_internal\<close> only writes
  a log line.
\<close>

definition update_price :: "oracle_state \<Rightarrow> address \<Rightarrow> uint64 \<Rightarrow> uint64 \<Rightarrow> uint64 \<Rightarrow> error + oracle_state" where
  "update_price s sender now new_price confidence =
     and_then (require (orc_is_paused s = 0) ''Oracle is paused'') (\<lambda>_.
     and_then (require (circuit_breaker_active s = 0) ''Circuit breaker active'') (\<lambda>_.
     and_then (require (new_price > 0) ''Price must be positive'') (\<lambda>_.
     and_then (require (confidence \<le> 10000) ''Confidence cannot exceed 100%'') (\<lambda>_.
     and_then (is_authorized s sender) (\<lambda>authorized.
     and_then (require authorized ''Not authorized to update price'') (\<lambda>_.
     let current_price = token_price s; current_timestamp = price_timestamp s in
     and_then
       (if current_price > 0 then
          and_then (add64 current_timestamp min_update_interval) (\<lambda>earliest.
          and_then (require (now \<ge> earliest) ''Update too frequent'') (\<lambda>_.
          and_then (priv_calculate_deviation current_price new_price) (\<lambda>deviation.
          require (deviation \<le> max_price_deviation) ''Price deviation too large'')))
        else Inr ())
       (\<lambda>_.
     Inr (s\<lparr>token_price := new_price, price_timestamp := now,
            price_confidence := confidence, price_updater := sender\<rparr>))))))))"

definition set_threshold :: "oracle_state \<Rightarrow> address \<Rightarrow> uint64 \<Rightarrow> error + oracle_state" where
  "set_threshold s sender threshold =
     and_then (require (threshold > 0) ''Threshold must be positive'') (\<lambda>_.
     and_then (is_authorized s sender) (\<lambda>authorized.
     and_then (require authorized ''Not authorized to set threshold'') (\<lambda>_.
     Inr (s\<lparr>orc_threshold_price := threshold, threshold_active := 1,
            threshold_setter := sender\<rparr>))))"

definition get_price :: "oracle_state \<Rightarrow> uint64 \<Rightarrow> error + uint64" where
  "get_price s now =
     (let current_price = token_price s; stored_timestamp = price_timestamp s in
      and_then (require (current_price > 0) ''No price available'') (\<lambda>_.
      and_then (add64 stored_timestamp staleness_threshold) (\<lambda>fresh_until.
      and_then (require (now \<le> fresh_until) ''Price is stale'') (\<lambda>_.
      Inr current_price))))"

definition is_price_stale :: "oracle_state \<Rightarrow> uint64 \<Rightarrow> error + uint64" where
  "is_price_stale s now =
     (let stored_timestamp = price_timestamp s in
      if stored_timestamp = 0 then Inr 1
      else
        and_then (add64 stored_timestamp staleness_threshold) (\<lambda>fresh_until.
        if now > fresh_until then Inr 1 else Inr 0))"

definition threshold_reached :: "oracle_state \<Rightarrow> uint64 \<Rightarrow> error + uint64" where
  "threshold_reached s now =
     (if threshold_active s = 0 then Inr 0
      else
        let current_price = token_price s; threshold = orc_threshold_price s in
        if current_price = 0 then Inr 0
        else
          and_then (is_price_stale s now) (\<lambda>stale.
          if stale = 1 then Inr 0
          else if current_price \<ge> threshold then Inr 1
          else Inr 0))"

section \<open>PTToken and YTToken (pt\_token/contract.py, yt\_token/contract.py)\<close>

text \<open>
  The two token contracts have the same state and the same text for \<open>initialize\<close>,
  \<open>mint\<close>, \<open>burn\<close>, \<open>transfer\<close>, \<open>approve\<close>, \<open>transfer_from\<close> and
  \<open>update_owner\<close> (only the log lines name PT or YT), so one model stands for both
  ledgers.
\<close>

record token_state =
  tok_owner :: address
  tok_name :: string
  tok_symbol :: string
  maturity :: uint64
  total_supply :: uint64
  decimals :: uint64
  balance :: local_state
  allowance :: local_state

definition token_created :: token_state where
  "token_created = \<lparr>tok_owner = 0, tok_name = [], tok_symbol = [], maturity = 0,
     total_supply = 0, decimals = 0, balance = Map.empty, allowance = Map.empty\<rparr>"

definition token_initialize :: "address \<Rightarrow> token_state \<Rightarrow> address \<Rightarrow> uint64 \<Rightarrow> string \<Rightarrow> string \<Rightarrow> uint64 \<Rightarrow> error + token_state" where
  "token_initialize creator_address s sender now new_name new_symbol maturity_timestamp =
     and_then (require (sender = creator_address) ''Only creator can initialize'') (\<lambda>_.
     and_then (require (maturity_timestamp > now) ''Maturity must be in future'') (\<lambda>_.
     Inr (s\<lparr>tok_owner := sender, tok_name := new_name, tok_symbol := new_symbol,
            maturity := maturity_timestamp, total_supply := 0, decimals := 8\<rparr>)))"

text \<open>\<open>mint\<close> ignores its argument \<open>to\<close> and works on the sender's balance.\<close>

definition mint :: "token_state \<Rightarrow> address \<Rightarrow> address \<Rightarrow> uint64 \<Rightarrow> error + token_state" where
  "mint s sender to amount =
     and_then (require (sender = tok_owner s) ''Only owner can mint'') (\<lambda>_.
     and_then (require (amount > 0) ''Amount must be positive'') (\<lambda>_.
     and_then (add64 (total_supply s) amount) (\<lambda>new_supply.
     and_then (local_get (balance s) sender) (\<lambda>current_balance.
     and_then (add64 current_balance amount) (\<lambda>new_balance.
     Inr (s\<lparr>total_supply := new_supply,
            balance := (balance s)(sender \<mapsto> new_balance)\<rparr>))))))"

definition burn :: "token_state \<Rightarrow> address \<Rightarrow> uint64 \<Rightarrow> error + token_state" where
  "burn s sender amount =
     and_then (require (amount > 0) ''Amount must be positive'') (\<lambda>_.
     and_then (local_get (balance s) sender) (\<lambda>current_balance.
     and_then (require (current_balance \<ge> amount) ''Insufficient balance'') (\<lambda>_.
     and_then (sub64 current_balance amount) (\<lambda>new_balance.
     and_then (sub64 (total_supply s) amount) (\<lambda>new_supply.
     Inr (s\<lparr>balance := (balance s)(sender \<mapsto> new_balance),
            total_supply := new_supply\<rparr>))))))"

text \<open>\<open>transfer\<close> debits the sender; no statement of the method credits \<open>to\<close>.\<close>

definition transfer :: "token_state \<Rightarrow> address \<Rightarrow> address \<Rightarrow> uint64 \<Rightarrow> error + token_state" where
  "transfer s sender to amount =
     and_then (require (amount > 0) ''Amount must be positive'') (\<lambda>_.
     and_then (local_get (balance s) sender) (\<lambda>sender_balance.
     and_then (require (sender_balance \<ge> amount) ''Insufficient balance'') (\<lambda>_.
     and_then (sub64 sender_balance amount) (\<lambda>new_balance.
     Inr (s\<lparr>balance := (balance s)(sender \<mapsto> new_balance)\<rparr>)))))"


definition transfer_from :: "token_state \<Rightarrow> address \<Rightarrow> address \<Rightarrow> address \<Rightarrow> uint64 \<Rightarrow> error + token_state" where
  "transfer_from s sender from_addr to amount =
     and_then (require (amount > 0) ''Amount must be positive'') (\<lambda>_.
     and_then (local_get (allowance s) sender) (\<lambda>current_allowance.
     and_then (require (current_allowance \<ge> amount) ''Insufficient allowance'') (\<lambda>_.
     and_then (local_get (balance s) sender) (\<lambda>sender_balance.
     and_then (require (sender_balance \<ge> amount) ''Insufficient balance'') (\<lambda>_.
     and_then (sub64 sender_balance amount) (\<lambda>new_balance.
     and_then (sub64 current_allowance amount) (\<lambda>new_allowance.
     Inr (s\<lparr>balance := (balance s)(sender \<mapsto> new_balance),
            allowance := (allowance s)(sender \<mapsto> new_allowance)\<rparr>))))))))"


definition balance_of :: "token_state \<Rightarrow> address \<Rightarrow> address \<Rightarrow> error + uint64" where
  "balance_of s sender account = local_get (balance s) sender"

definition get_total_supply :: "token_state \<Rightarrow> uint64" where
  "get_total_supply s = total_supply s"





section \<open>YieldTokenization (yield\_tokenization/contract.py)\<close>

record tokenization_state =
  tkn_admin :: address
  base_name :: string
  base_symbol :: string
  tkn_is_paused :: uint64
  maturity_count :: uint64
  maturities :: string
  user_sy_balance :: local_state
  user_pt_balance :: local_state
  user_yt_balance :: local_state

definition one_year :: uint64 where
  "one_year = 365 * 24 * 60 * 60"

definition tokenization_created :: tokenization_state where
  "tokenization_created = \<lparr>tkn_admin = 0, base_name = [], base_symbol = [],
     tkn_is_paused = 0, maturity_count = 0, maturities = [],
     user_sy_balance = Map.empty, user_pt_balance = Map.empty, user_yt_balance = Map.empty\<rparr>"

text \<open>\<open>_create_maturity_internal\<close>\<close>

definition priv_create_maturity_internal :: "tokenization_state \<Rightarrow> uint64 \<Rightarrow> error + tokenization_state" where
  "priv_create_maturity_internal s maturity_timestamp =
     (let current_count = maturity_count s in
      and_then (add64 current_count 1) (\<lambda>new_count.
      Inr (s\<lparr>maturity_count := new_count\<rparr>)))"

text \<open>\<open>_maturity_exists\<close>: reads no state; \<open>and\<close> evaluates its right operand only
  when the left one holds.\<close>

definition priv_maturity_exists :: "uint64 \<Rightarrow> uint64 \<Rightarrow> error + bool" where
  "priv_maturity_exists now maturity_timestamp =
     (if maturity_timestamp > now then
        and_then (add64 now one_year) (\<lambda>horizon. Inr (maturity_timestamp \<le> horizon))
      else Inr False)"

definition tokenization_initialize :: "address \<Rightarrow> tokenization_state \<Rightarrow> address \<Rightarrow> uint64 \<Rightarrow> string \<Rightarrow> string \<Rightarrow> error + tokenization_state" where
  "tokenization_initialize creator_address s sender now new_name new_symbol =
     and_then (require (sender = creator_address) ''Only creator can initialize'') (\<lambda>_.
     and_then (add64 now 2592000) (\<lambda>initial_maturity.
     priv_create_maturity_internal
       (s\<lparr>tkn_admin := sender, base_name := new_name, base_symbol := new_symbol,
          tkn_is_paused := 0, maturity_count := 0, maturities := []\<rparr>)
       initial_maturity))"

definition create_maturity :: "tokenization_state \<Rightarrow> address \<Rightarrow> uint64 \<Rightarrow> uint64 \<Rightarrow> error + tokenization_state" where
  "create_maturity s sender now maturity_timestamp =
     and_then (require (sender = tkn_admin s) ''Only admin can create maturity'') (\<lambda>_.
     and_then (require (maturity_timestamp > now) ''Maturity must be in future'') (\<lambda>_.
     and_then (require (tkn_is_paused s = 0) ''Protocol is paused'') (\<lambda>_.
     and_then (priv_maturity_exists now maturity_timestamp) (\<lambda>found.
     and_then (require (\<not> found) ''Maturity already exists'') (\<lambda>_.
     priv_create_maturity_internal s maturity_timestamp)))))"

definition split_tokens :: "tokenization_state \<Rightarrow> address \<Rightarrow> uint64 \<Rightarrow> uint64 \<Rightarrow> uint64 \<Rightarrow> error + tokenization_state" where
  "split_tokens s sender now amount maturity_arg =
     and_then (require (tkn_is_paused s = 0) ''Protocol is paused'') (\<lambda>_.
     and_then (require (amount > 0) ''Amount must be positive'') (\<lambda>_.
     and_then (priv_maturity_exists now maturity_arg) (\<lambda>found.
     and_then (require found ''Maturity not found'') (\<lambda>_.
     and_then (local_get (user_sy_balance s) sender) (\<lambda>current_sy_balance.
     and_then (require (current_sy_balance \<ge> amount) ''Insufficient SY balance'') (\<lambda>_.
     and_then (sub64 current_sy_balance amount) (\<lambda>new_sy.
     and_then (local_get (user_pt_balance s) sender) (\<lambda>current_pt_balance.
     and_then (add64 current_pt_balance amount) (\<lambda>new_pt.
     and_then (local_get (user_yt_balance s) sender) (\<lambda>current_yt_balance.
     and_then (add64 current_yt_balance amount) (\<lambda>new_yt.
     Inr (s\<lparr>user_sy_balance := (user_sy_balance s)(sender \<mapsto> new_sy),
            user_pt_balance := (user_pt_balance s)(sender \<mapsto> new_pt),
            user_yt_balance := (user_yt_balance s)(sender \<mapsto> new_yt)\<rparr>))))))))))))"

definition redeem_tokens :: "tokenization_state \<Rightarrow> address \<Rightarrow> uint64 \<Rightarrow> uint64 \<Rightarrow> uint64 \<Rightarrow> error + tokenization_state" where
  "redeem_tokens s sender now amount maturity_arg =
     and_then (require (tkn_is_paused s = 0) ''Protocol is paused'') (\<lambda>_.
     and_then (require (amount > 0) ''Amount must be positive'') (\<lambda>_.
     and_then (require (now \<ge> maturity_arg) ''Maturity not reached'') (\<lambda>_.
     and_then (local_get (user_pt_balance s) sender) (\<lambda>current_pt_balance.
     and_then (require (current_pt_balance \<ge> amount) ''Insufficient PT balance'') (\<lambda>_.
     and_then (sub64 current_pt_balance amount) (\<lambda>new_pt.
     and_then (local_get (user_sy_balance s) sender) (\<lambda>current_sy_balance.
     and_then (add64 current_sy_balance amount) (\<lambda>new_sy.
     Inr (s\<lparr>user_pt_balance := (user_pt_balance s)(sender \<mapsto> new_pt),
            user_sy_balance := (user_sy_balance s)(sender \<mapsto> new_sy)\<rparr>)))))))))"

definition deposit_sy_tokens :: "tokenization_state \<Rightarrow> address \<Rightarrow> uint64 \<Rightarrow> error + tokenization_state" where
  "deposit_sy_tokens s sender amount =
     and_then (require (amount > 0) ''Amount must be positive'') (\<lambda>_.
     and_then (local_get (user_sy_balance s) sender) (\<lambda>current_sy_balance.
     and_then (add64 current_sy_balance amount) (\<lambda>new_sy.
     Inr (s\<lparr>user_sy_balance := (user_sy_balance s)(sender \<mapsto> new_sy)\<rparr>))))"

text \<open>
  A sequence of \<open>split_tokens\<close> and \<open>redeem_tokens\<close> calls, each with its sender and
  the time of the call. \<open>splitter_run\<close> stops at the first abort. It threads two
  counters that the contract does not store: the PT and the YT minted so far, each
  read off the sender's balance before and after a split.
\<close>

datatype splitter_call =
    Split_tokens address uint64 uint64 uint64
  | Redeem_tokens address uint64 uint64 uint64

fun splitter_step :: "tokenization_state \<Rightarrow> splitter_call \<Rightarrow> error + tokenization_state" where
  "splitter_step s (Split_tokens sender now amount maturity_arg) = split_tokens s sender now amount maturity_arg"
| "splitter_step s (Redeem_tokens sender now amount maturity_arg) = redeem_tokens s sender now amount maturity_arg"

fun minted_by :: "local_state \<Rightarrow> local_state \<Rightarrow> splitter_call \<Rightarrow> nat" where
  "minted_by before after (Split_tokens sender now amount maturity_arg) =
     held after sender - held before sender"
| "minted_by before after (Redeem_tokens sender now amount maturity_arg) = 0"

fun splitter_run :: "tokenization_state \<times> nat \<times> nat \<Rightarrow> splitter_call list \<Rightarrow> error + (tokenization_state \<times> nat \<times> nat)" where
  "splitter_run (s, pt_minted, yt_minted) [] = Inr (s, pt_minted, yt_minted)"
| "splitter_run (s, pt_minted, yt_minted) (c # cs) =
     and_then (splitter_step s c) (\<lambda>s'.
     splitter_run
       (s', pt_minted + minted_by (user_pt_balance s) (user_pt_balance s') c,
            yt_minted + minted_by (user_yt_balance s) (user_yt_balance s') c)
       cs)"

section \<open>YTAutoConverter (yt\_auto\_converter/contract.py)\<close>

record converter_state =
  cnv_admin :: address
  oracle_address :: address
  tokenization_address :: address
  amm_address :: address
  conversion_fee :: uint64
  cnv_is_paused :: uint64
  total_conversions :: uint64
  conversion_enabled :: local_state
  threshold_price :: local_state
  user_maturity :: local_state
  conversion_executed :: local_state
  yt_balance :: local_state
  pt_balance :: local_state

definition max_slippage :: uint64 where
  "max_slippage = 500"

definition cnv_fee_denominator :: uint64 where
  "cnv_fee_denominator = 10000"

definition converter_created :: converter_state where
  "converter_created = \<lparr>cnv_admin = 0, oracle_address = 0, tokenization_address = 0,
     amm_address = 0, conversion_fee = 0, cnv_is_paused = 0, total_conversions = 0,
     conversion_enabled = Map.empty, threshold_price = Map.empty, user_maturity = Map.empty,
     conversion_executed = Map.empty, yt_balance = Map.empty, pt_balance = Map.empty\<rparr>"

definition converter_initialize :: "address \<Rightarrow> converter_state \<Rightarrow> address \<Rightarrow> address \<Rightarrow> address \<Rightarrow> address \<Rightarrow> error + converter_state" where
  "converter_initialize creator_address s sender new_oracle new_tokenization new_amm =
     and_then (require (sender = creator_address) ''Only creator can initialize'') (\<lambda>_.
     Inr (s\<lparr>cnv_admin := sender, oracle_address := new_oracle,
            tokenization_address := new_tokenization, amm_address := new_amm,
            conversion_fee := 30, cnv_is_paused := 0, total_conversions := 0\<rparr>))"

definition configure_conversion :: "converter_state \<Rightarrow> address \<Rightarrow> uint64 \<Rightarrow> uint64 \<Rightarrow> uint64 \<Rightarrow> uint64 \<Rightarrow> error + converter_state" where
  "configure_conversion s sender now enabled new_threshold new_maturity =
     and_then (require (new_threshold > 0) ''Threshold price must be positive'') (\<lambda>_.
     and_then (require (new_maturity > now) ''Maturity must be in future'') (\<lambda>_.
     Inr (s\<lparr>conversion_enabled := (conversion_enabled s)(sender \<mapsto> enabled),
            threshold_price := (threshold_price s)(sender \<mapsto> new_threshold),
            user_maturity := (user_maturity s)(sender \<mapsto> new_maturity),
            conversion_executed := (conversion_executed s)(sender \<mapsto> 0)\<rparr>)))"

definition deposit_yt_tokens :: "converter_state \<Rightarrow> address \<Rightarrow> uint64 \<Rightarrow> error + converter_state" where
  "deposit_yt_tokens s sender amount =
     and_then (require (amount > 0) ''Amount must be positive'') (\<lambda>_.
     and_then (local_get (yt_balance s) sender) (\<lambda>current_yt.
     and_then (add64 current_yt amount) (\<lambda>new_yt.
     Inr (s\<lparr>yt_balance := (yt_balance s)(sender \<mapsto> new_yt)\<rparr>))))"

text \<open>\<open>_perform_market_conversion\<close>\<close>

definition priv_perform_market_conversion :: "uint64 \<Rightarrow> uint64 \<Rightarrow> error + uint64" where
  "priv_perform_market_conversion amount min_output =
     (let slippage_factor = 9950 in
      and_then (mul64 amount slippage_factor) (\<lambda>scaled.
      and_then (div64 scaled 10000) (\<lambda>market_rate.
      and_then (require (market_rate \<ge> min_output) ''Insufficient output amount'') (\<lambda>_.
      Inr market_rate))))"

text \<open>\<open>execute_conversion\<close> ignores its argument \<open>user\<close> and works on the sender.\<close>

definition execute_conversion :: "converter_state \<Rightarrow> address \<Rightarrow> uint64 \<Rightarrow> address \<Rightarrow> uint64 \<Rightarrow> uint64 \<Rightarrow> error + converter_state" where
  "execute_conversion s sender now user min_pt_amount deadline =
     and_then (require (cnv_is_paused s = 0) ''Converter is paused'') (\<lambda>_.
     and_then (require (now \<le> deadline) ''Transaction expired'') (\<lambda>_.
     and_then (local_get (conversion_enabled s) sender) (\<lambda>enabled.
     and_then (require (enabled = 1) ''Conversion not enabled'') (\<lambda>_.
     and_then (local_get (conversion_executed s) sender) (\<lambda>executed.
     and_then (require (executed = 0) ''Conversion already executed'') (\<lambda>_.
     and_then (local_get (threshold_price s) sender) (\<lambda>user_threshold.
     and_then (require (user_threshold > 0) ''Threshold not reached'') (\<lambda>_.
     and_then (local_get (yt_balance s) sender) (\<lambda>user_yt_balance.
     and_then (require (user_yt_balance > 0) ''No YT tokens to convert'') (\<lambda>_.
     and_then (mul64 user_yt_balance (conversion_fee s)) (\<lambda>scaled_fee.
     and_then (div64 scaled_fee cnv_fee_denominator) (\<lambda>fee_amount.
     and_then (sub64 user_yt_balance fee_amount) (\<lambda>conversion_amount.
     and_then (priv_perform_market_conversion conversion_amount min_pt_amount) (\<lambda>received_pt.
     and_then (local_get (pt_balance s) sender) (\<lambda>current_pt.
     and_then (add64 current_pt received_pt) (\<lambda>new_pt.
     and_then (add64 (total_conversions s) 1) (\<lambda>new_count.
     Inr (s\<lparr>yt_balance := (yt_balance s)(sender \<mapsto> 0),
            pt_balance := (pt_balance s)(sender \<mapsto> new_pt),
            conversion_executed := (conversion_executed s)(sender \<mapsto> 1),
            total_conversions := new_count\<rparr>))))))))))))))))))"

definition add_maturity :: "converter_state \<Rightarrow> address \<Rightarrow> uint64 \<Rightarrow> uint64 \<Rightarrow> error + converter_state" where
  "add_maturity s sender now new_maturity =
     and_then (require (new_maturity > now) ''Maturity must be in future'') (\<lambda>_.
     Inr (s\<lparr>user_maturity := (user_maturity s)(sender \<mapsto> new_maturity)\<rparr>))"

definition remove_maturity :: "converter_state \<Rightarrow> address \<Rightarrow> error + converter_state" where
  "remove_maturity s sender =
     Inr (s\<lparr>user_maturity := (user_maturity s)(sender \<mapsto> 0)\<rparr>)"

definition set_conversion_fee :: "converter_state \<Rightarrow> address \<Rightarrow> uint64 \<Rightarrow> error + converter_state" where
  "set_conversion_fee s sender new_fee =
     and_then (require (sender = cnv_admin s) ''Only admin can set fee'') (\<lambda>_.
     and_then (require (new_fee \<le> 1000) ''Fee too high (max 10%)'') (\<lambda>_.
     Inr (s\<lparr>conversion_fee := new_fee\<rparr>)))"

definition pause_converter :: "converter_state \<Rightarrow> address \<Rightarrow> error + converter_state" where
  "pause_converter s sender =
     and_then (require (sender = cnv_admin s) ''Only admin can pause'') (\<lambda>_.
     Inr (s\<lparr>cnv_is_paused := 1\<rparr>))"

definition unpause_converter :: "converter_state \<Rightarrow> address \<Rightarrow> error + converter_state" where
  "unpause_converter s sender =
     and_then (require (sender = cnv_admin s) ''Only admin can unpause'') (\<lambda>_.
     Inr (s\<lparr>cnv_is_paused := 0\<rparr>))"

definition emergency_disable_conversion :: "converter_state \<Rightarrow> address \<Rightarrow> error + converter_state" where
  "emergency_disable_conversion s sender =
     Inr (s\<lparr>conversion_enabled := (conversion_enabled s)(sender \<mapsto> 0)\<rparr>)"

definition withdraw_pt_tokens :: "converter_state \<Rightarrow> address \<Rightarrow> uint64 \<Rightarrow> error + converter_state" where
  "withdraw_pt_tokens s sender amount =
     and_then (require (amount > 0) ''Amount must be positive'') (\<lambda>_.
     and_then (local_get (pt_balance s) sender) (\<lambda>current_pt_balance.
     and_then (require (current_pt_balance \<ge> amount) ''Insufficient PT balance'') (\<lambda>_.
     and_then (sub64 current_pt_balance amount) (\<lambda>new_pt.
     Inr (s\<lparr>pt_balance := (pt_balance s)(sender \<mapsto> new_pt)\<rparr>)))))"

definition update_addresses :: "converter_state \<Rightarrow> address \<Rightarrow> address \<Rightarrow> address \<Rightarrow> address \<Rightarrow> error + converter_state" where
  "update_addresses s sender new_oracle new_tokenization new_amm =
     and_then (require (sender = cnv_admin s) ''Only admin can update addresses'') (\<lambda>_.
     Inr (s\<lparr>oracle_address := new_oracle, tokenization_address := new_tokenization,
            amm_address := new_amm\<rparr>))"

text \<open>
  Every method of the converter that writes state, as a call with its sender and, where
  the method reads it, the time of the call. A call that aborts leaves the state as it
  was; \<open>converter_run\<close> applies a list of calls in order.
\<close>

datatype converter_call =
    Initialize address address address address address
  | Configure_conversion address uint64 uint64 uint64 uint64
  | Deposit_yt_tokens address uint64
  | Execute_conversion address uint64 address uint64 uint64
  | Add_maturity address uint64 uint64
  | Remove_maturity address
  | Set_conversion_fee address uint64
  | Pause_converter address
  | Unpause_converter address
  | Emergency_disable_conversion address
  | Withdraw_pt_tokens address uint64
  | Update_addresses address address address address

fun converter_step :: "converter_state \<Rightarrow> converter_call \<Rightarrow> error + converter_state" where
  "converter_step s (Initialize creator_address sender o_addr t_addr a_addr) =
     converter_initialize creator_address s sender o_addr t_addr a_addr"
| "converter_step s (Configure_conversion sender now enabled new_threshold new_maturity) =
     configure_conversion s sender now enabled new_threshold new_maturity"
| "converter_step s (Deposit_yt_tokens sender amount) = deposit_yt_tokens s sender amount"
| "converter_step s (Execute_conversion sender now user min_pt_amount deadline) =
     execute_conversion s sender now user min_pt_amount deadline"
| "converter_step s (Add_maturity sender now new_maturity) = add_maturity s sender now new_maturity"
| "converter_step s (Remove_maturity sender) = remove_maturity s sender"
| "converter_step s (Set_conversion_fee sender new_fee) = set_conversion_fee s sender new_fee"
| "converter_step s (Pause_converter sender) = pause_converter s sender"
| "converter_step s (Unpause_converter sender) = unpause_converter s sender"
| "converter_step s (Emergency_disable_conversion sender) = emergency_disable_conversion s sender"
| "converter_step s (Withdraw_pt_tokens sender amount) = withdraw_pt_tokens s sender amount"
| "converter_step s (Update_addresses sender o_addr t_addr a_addr) = update_addresses s sender o_addr t_addr a_addr"

definition converter_apply :: "converter_state \<Rightarrow> converter_call \<Rightarrow> converter_state" where
  "converter_apply s c = (case converter_step s c of Inl e \<Rightarrow> s | Inr s' \<Rightarrow> s')"

fun converter_run :: "converter_state \<Rightarrow> converter_call list \<Rightarrow> converter_state" where
  "converter_run s [] = s"
| "converter_run s (c # cs) = converter_run (converter_apply s c) cs"

fun reconfigures :: "address \<Rightarrow> converter_call \<Rightarrow> bool" where
  "reconfigures u (Configure_conversion sender now enabled new_threshold new_maturity) = (sender = u)"
| "reconfigures u c = False"

section \<open>Example states\<close>

text \<open>
  \<open>pool_empty\<close> is the pool after account 1 created and initialised it.
  \<open>pool_1000\<close> is an initialised pool that holds reserves of 1000 and 1000 against
  1295 shares. \<open>pool_100_1\<close> is an initialised pool that holds reserves of 100 and 1
  against 10 shares and in which the three local slots of account 2 are written, each
  with 0; \<open>pool_deposited\<close> is that pool after account 2 deposited 199 of token A and
  1 of token B, which minted 19 shares, and \<open>pool_withdrawn\<close> is the pool after
  account 2 removed the 19 shares again.
\<close>

definition pool_empty :: amm_state where
  "pool_empty = amm_created\<lparr>amm_admin := 1, fee_rate := 3\<rparr>"

definition pool_1000 :: amm_state where
  "pool_1000 = pool_empty\<lparr>reserve_a := 1000, reserve_b := 1000, total_liquidity := 1295\<rparr>"




text \<open>
  \<open>staking_ready\<close> is the staking contract after account 1 created and initialised
  it. \<open>position_1000\<close> is an initialised staking contract in which the three local
  slots of account 7 are written: a stake of 1000, last reward time 0 and reward
  balance 0; \<open>position_claimed\<close> is that state after account 7 called
  \<open>claim_rewards\<close> at time 2000000. \<open>position_settled\<close> is \<open>position_1000\<close>
  with a reward balance of 3 for account 7, and \<open>position_withdrawn\<close> is that state
  after account 7 called \<open>emergency_withdraw\<close>.
\<close>

definition staking_ready :: staking_state where
  "staking_ready = staking_created\<lparr>stk_admin := 1, reward_name := ''Reward'',
     reward_symbol := ''RWD''\<rparr>"

definition position_1000 :: staking_state where
  "position_1000 = staking_ready\<lparr>total_staked := 1000, staked_amount := [7 \<mapsto> 1000],
     last_reward_time := [7 \<mapsto> 0], reward_balance := [7 \<mapsto> 0]\<rparr>"

definition position_claimed :: staking_state where
  "position_claimed = staking_ready\<lparr>total_staked := 1000, total_rewards_distributed := 1,
     staked_amount := [7 \<mapsto> 1000], last_reward_time := [7 \<mapsto> 2000000],
     reward_balance := [7 \<mapsto> 0]\<rparr>"



text \<open>
  \<open>oracle_ready\<close> is the oracle after account 1 created and initialised it, and
  \<open>oracle_priced\<close> the oracle after account 1 then stored the price 100 at time 1000.
\<close>

definition oracle_ready :: oracle_state where
  "oracle_ready = oracle_created\<lparr>orc_admin := 1, is_updater := [1 \<mapsto> 1],
     updater_count := 1\<rparr>"

definition oracle_priced :: oracle_state where
  "oracle_priced = oracle_ready\<lparr>token_price := 100, price_timestamp := 1000,
     price_confidence := 9000, price_updater := 1\<rparr>"

text \<open>
  \<open>converter_ready\<close> is the converter after account 1 created and initialised it;
  \<open>converter_configured\<close> is that converter after account 7 called
  \<open>configure_conversion\<close> at time 10 with \<open>enabled = 1\<close>, threshold 100 and
  maturity 5000. \<open>converter_funded\<close> is \<open>converter_configured\<close> with the two
  balance slots of account 7 written as well: 1000 YT and 0 PT.
\<close>

definition converter_ready :: converter_state where
  "converter_ready = converter_created\<lparr>cnv_admin := 1, oracle_address := 11,
     tokenization_address := 12, amm_address := 13, conversion_fee := 30\<rparr>"

definition converter_configured :: converter_state where
  "converter_configured = converter_ready\<lparr>conversion_enabled := [7 \<mapsto> 1],
     threshold_price := [7 \<mapsto> 100], user_maturity := [7 \<mapsto> 5000],
     conversion_executed := [7 \<mapsto> 0]\<rparr>"

definition converter_funded :: converter_state where
  "converter_funded = converter_configured\<lparr>yt_balance := [7 \<mapsto> 1000],
     pt_balance := [7 \<mapsto> 0]\<rparr>"

text \<open>
  \<open>token_ready\<close> is a token ledger after account 1 created it and initialised it at
  time 0 with maturity 5000. \<open>ledger_10\<close> is an initialised ledger of supply 10 in
  which the balance slot of account 1 is written with 10.
\<close>

definition token_ready :: token_state where
  "token_ready = token_created\<lparr>tok_owner := 1, tok_name := ''Principal'',
     tok_symbol := ''PT'', maturity := 5000, decimals := 8\<rparr>"

definition ledger_10 :: token_state where
  "ledger_10 = token_ready\<lparr>total_supply := 10, balance := [1 \<mapsto> 10]\<rparr>"

text \<open>
  \<open>splitter_ready\<close> is the splitter after account 1 created and initialised it at
  time 0. \<open>splitter_funded\<close> is an initialised splitter in which the three balance
  slots of account 7 are written: 100 SY, 0 PT and 0 YT; \<open>splitter_split\<close> and
  \<open>splitter_redeemed\<close> are the states after account 7 then split 40 at time 1000 for
  maturity 2000, and redeemed 10 at time 3000.
\<close>

definition splitter_ready :: tokenization_state where
  "splitter_ready = tokenization_created\<lparr>tkn_admin := 1, base_name := ''Yield'',
     base_symbol := ''SY'', maturity_count := 1\<rparr>"

definition splitter_funded :: tokenization_state where
  "splitter_funded = splitter_ready\<lparr>user_sy_balance := [7 \<mapsto> 100],
     user_pt_balance := [7 \<mapsto> 0], user_yt_balance := [7 \<mapsto> 0]\<rparr>"

definition splitter_split :: tokenization_state where
  "splitter_split = splitter_ready\<lparr>user_sy_balance := [7 \<mapsto> 60],
     user_pt_balance := [7 \<mapsto> 40], user_yt_balance := [7 \<mapsto> 40]\<rparr>"

definition splitter_redeemed :: tokenization_state where
  "splitter_redeemed = splitter_ready\<lparr>user_sy_balance := [7 \<mapsto> 70],
     user_pt_balance := [7 \<mapsto> 30], user_yt_balance := [7 \<mapsto> 40]\<rparr>"

section \<open>Facts about the host operations\<close>

lemma and_then_Inr [simp]: "and_then (Inr v) f = f v"
  by (simp add: and_then_def)

lemma and_then_Inl [simp]: "and_then (Inl e) f = Inl e"
  by (simp add: and_then_def)

lemma and_then_eq_Inr: "and_then m f = Inr y \<longleftrightarrow> (\<exists>v. m = Inr v \<and> f v = Inr y)"
  by (cases m) simp_all

lemma require_eq_Inr: "require c msg = Inr u \<longleftrightarrow> c"
  by (simp add: require_def)

lemma add64_eq_Inr: "add64 a b = Inr c \<longleftrightarrow> a + b < u64_limit \<and> c = a + b"
  by (auto simp: add64_def)

lemma sub64_eq_Inr: "sub64 a b = Inr c \<longleftrightarrow> b \<le> a \<and> c = a - b"
  by (auto simp: sub64_def)

lemma mul64_eq_Inr: "mul64 a b = Inr c \<longleftrightarrow> a * b < u64_limit \<and> c = a * b"
  by (auto simp: mul64_def)

lemma div64_eq_Inr: "div64 a b = Inr c \<longleftrightarrow> b \<noteq> 0 \<and> c = a div b"
  by (auto simp: div64_def)

lemma local_get_eq_Inr: "local_get slot account = Inr v \<longleftrightarrow> slot account = Some v"
  by (simp add: local_get_def split: option.splits)

lemma local_get_unset: "slot account = None \<Longrightarrow> local_get slot account = Inl Unset_local_state"
  by (simp add: local_get_def)

lemma local_get_set: "slot account = Some v \<Longrightarrow> local_get slot account = Inr v"
  by (simp add: local_get_def)

lemmas succeeds = and_then_eq_Inr require_eq_Inr add64_eq_Inr sub64_eq_Inr mul64_eq_Inr
  div64_eq_Inr local_get_eq_Inr

lemma mul_bound_left: "(a::nat) * b < n \<Longrightarrow> 0 < b \<Longrightarrow> a < n"
  by (metis One_nat_def Suc_leI le_less_trans mult.right_neutral mult_le_mono2)

lemmas run_defs = require_def add64_def sub64_def mul64_def div64_def u64_limit_def Let_def
  local_get_def

section \<open>The initialised example states are reached by calls\<close>

lemma pool_empty_reachable: "amm_initialize 1 amm_created 1 = Inr pool_empty"
  by (simp add: amm_initialize_def pool_empty_def amm_created_def run_defs)

lemma staking_ready_reachable:
  "staking_initialize 1 staking_created 1 ''Reward'' ''RWD'' = Inr staking_ready"
  by (simp add: staking_initialize_def staking_ready_def staking_created_def run_defs)

lemma oracle_ready_reachable: "oracle_initialize 1 oracle_created 1 = Inr oracle_ready"
  by (simp add: oracle_initialize_def oracle_ready_def oracle_created_def run_defs)

lemma oracle_priced_reachable: "update_price oracle_ready 1 1000 100 9000 = Inr oracle_priced"
  by (simp add: update_price_def is_authorized_def oracle_priced_def oracle_ready_def
      oracle_created_def run_defs)

lemma converter_ready_reachable:
  "converter_initialize 1 converter_created 1 11 12 13 = Inr converter_ready"
  by (simp add: converter_initialize_def converter_ready_def converter_created_def run_defs)

lemma token_ready_reachable:
  "token_initialize 1 token_created 1 0 ''Principal'' ''PT'' 5000 = Inr token_ready"
  by (simp add: token_initialize_def token_ready_def token_created_def run_defs)

lemma converter_configured_reachable:
  "configure_conversion converter_ready 7 10 1 100 5000 = Inr converter_configured"
  by (simp add: configure_conversion_def converter_configured_def converter_ready_def
      converter_created_def run_defs)

lemma splitter_ready_reachable:
  "tokenization_initialize 1 tokenization_created 1 0 ''Yield'' ''SY'' = Inr splitter_ready"
  by (simp add: tokenization_initialize_def priv_create_maturity_internal_def splitter_ready_def
      tokenization_created_def run_defs)

section \<open>SimpleAMM: the quoted output (C4)\<close>

text \<open>
  C4, as amended. The claim gives the quote for every positive \<open>amount_in\<close>,
  \<open>reserve_in\<close> and \<open>reserve_out\<close>. The host computes in 64 bits and aborts when
  an intermediate value leaves the range, so \<open>get_amount_out\<close> returns a quote exactly
  when the three inputs are positive, the fee rate is at most \<open>FEE_DENOM = 1000\<close>, and
  the numerator \<open>amount_in * (1000 - fee) * reserve_out\<close> and the denominator
  \<open>reserve_in * 1000 + amount_in * (1000 - fee)\<close> are below \<open>2 ^ 64\<close>; the quote is
  then the floor of numerator over denominator. On every other input the call aborts.
\<close>

theorem get_amount_out_quote:
  "get_amount_out s amount_in reserve_in reserve_out = Inr q \<longleftrightarrow>
     0 < amount_in \<and> 0 < reserve_in \<and> 0 < reserve_out \<and> fee_rate s \<le> 1000 \<and>
     amount_in * (1000 - fee_rate s) * reserve_out < 2 ^ 64 \<and>
     reserve_in * 1000 + amount_in * (1000 - fee_rate s) < 2 ^ 64 \<and>
     q = amount_in * (1000 - fee_rate s) * reserve_out
           div (reserve_in * 1000 + amount_in * (1000 - fee_rate s))"
  (is "?L \<longleftrightarrow> ?R")
proof
  assume ?L
  then show ?R
    by (auto simp: get_amount_out_def priv_get_amount_out_def succeeds amm_fee_denominator_def u64_limit_def)
next
  assume r: ?R
  then have "amount_in * (1000 - fee_rate s) < 2 ^ 64"
    using mul_bound_left by blast
  moreover from r have "reserve_in * 1000 < 2 ^ 64" by linarith
  ultimately show ?L using r
    by (simp add: get_amount_out_def priv_get_amount_out_def succeeds amm_fee_denominator_def u64_limit_def)
qed


theorem get_amount_out_quote_witness:
  "get_amount_out pool_1000 100 1000 1000 = Inr 90"
  using get_amount_out_quote [of pool_1000 100 1000 1000 90]
  by (simp add: pool_1000_def pool_empty_def amm_created_def)

text \<open>
  The claim as stated fails where the numerator leaves the 64-bit range: on the
  initialised pool (fee rate 3), \<open>amount_in = 2 ^ 63\<close> against reserves of 1 and 1
  aborts in \<open>amount_in * (1000 - 3)\<close>, and no quote is returned.
\<close>

theorem get_amount_out_quote_counterexample:
  "get_amount_out pool_empty 9223372036854775808 1 1 = Inl Overflow \<and>
   get_amount_out pool_empty 9223372036854775808 1 1
     \<noteq> Inr (9223372036854775808 * (1000 - 3) * 1 div (1 * 1000 + 9223372036854775808 * (1000 - 3)))"
  by (simp add: get_amount_out_def priv_get_amount_out_def amm_fee_denominator_def run_defs
      pool_empty_def amm_created_def)

section \<open>SimpleAMM: the reserve product never falls in a swap (C1)\<close>

lemma cp_le:
  fixes ra rb ain g out :: nat
  assumes g: "g \<le> 1000" and out: "out = (ain * g * rb) div (ra * 1000 + ain * g)"
  shows "(ra + ain) * out \<le> ain * rb"
proof (cases "ra * 1000 + ain * g = 0")
  case True
  then show ?thesis using out by simp
next
  case False
  define D where "D = ra * 1000 + ain * g"
  have Dpos: "0 < D" using False by (simp add: D_def)
  have "out * D \<le> ain * g * rb"
    unfolding out D_def by (rule div_times_less_eq_dividend)
  then have "(ra + ain) * (out * D) \<le> (ra + ain) * (ain * g * rb)"
    by (rule mult_le_mono2)
  also have "\<dots> = ((ra + ain) * (ain * g)) * rb"
    by (simp add: algebra_simps)
  also have "\<dots> \<le> (ain * D) * rb"
  proof (rule mult_le_mono1)
    have "ra * (ain * g) \<le> ain * (ra * 1000)"
      using g by (simp add: mult.left_commute)
    then show "(ra + ain) * (ain * g) \<le> ain * D"
      by (simp add: D_def algebra_simps)
  qed
  finally have "((ra + ain) * out) * D \<le> (ain * rb) * D"
    by (simp add: algebra_simps)
  then show ?thesis using Dpos by simp
qed

lemma cp_less:
  fixes ra rb ain g out :: nat
  assumes g: "g < 1000" and pos: "0 < ra" "0 < ain" "0 < rb"
    and out: "out = (ain * g * rb) div (ra * 1000 + ain * g)"
  shows "(ra + ain) * out < ain * rb"
proof -
  define D where "D = ra * 1000 + ain * g"
  have Dpos: "0 < D" using pos by (simp add: D_def)
  have "out * D \<le> ain * g * rb"
    unfolding out D_def by (rule div_times_less_eq_dividend)
  then have "(ra + ain) * (out * D) \<le> (ra + ain) * (ain * g * rb)"
    by (rule mult_le_mono2)
  also have "\<dots> = ((ra + ain) * (ain * g)) * rb"
    by (simp add: algebra_simps)
  also have "\<dots> < (ain * D) * rb"
  proof -
    have "ra * ain * g < ra * ain * 1000"
      using g pos by simp
    then have "(ra + ain) * (ain * g) < ain * D"
      by (simp add: D_def algebra_simps)
    then show ?thesis using pos by simp
  qed
  finally have "((ra + ain) * out) * D < (ain * rb) * D"
    by (simp add: algebra_simps)
  then show ?thesis by simp
qed

lemma product_after_swap_le:
  fixes ra rb ain out :: nat
  assumes "(ra + ain) * out \<le> ain * rb" "out \<le> rb"
  shows "ra * rb \<le> (ra + ain) * (rb - out)"
proof -
  have "(ra + ain) * (rb - out) = (ra + ain) * rb - (ra + ain) * out"
    by (simp add: diff_mult_distrib2)
  also have "\<dots> \<ge> (ra + ain) * rb - ain * rb"
    using assms(1) by (rule diff_le_mono2)
  finally show ?thesis by (simp add: add_mult_distrib)
qed

lemma product_after_swap_less:
  fixes ra rb ain out :: nat
  assumes "(ra + ain) * out < ain * rb" "out \<le> rb"
  shows "ra * rb < (ra + ain) * (rb - out)"
proof -
  have "(ra + ain) * (rb - out) = (ra + ain) * rb - (ra + ain) * out"
    by (simp add: diff_mult_distrib2)
  moreover have "(ra + ain) * out \<le> (ra + ain) * rb"
    using assms(2) by simp
  moreover have "(ra + ain) * rb = ra * rb + ain * rb"
    by (simp add: add_mult_distrib)
  ultimately show ?thesis using assms(1) by linarith
qed

lemma swap_a_for_b_facts:
  assumes "swap_a_for_b s amount_in = Inr s'"
  shows "\<exists>out. out = amount_in * (1000 - fee_rate s) * reserve_b s
                  div (reserve_a s * 1000 + amount_in * (1000 - fee_rate s)) \<and>
           0 < out \<and> out \<le> reserve_b s \<and> 0 < amount_in \<and> 0 < reserve_a s \<and> 0 < reserve_b s \<and>
           fee_rate s \<le> 1000 \<and>
           reserve_a s' = reserve_a s + amount_in \<and> reserve_b s' = reserve_b s - out"
  using assms
  by (auto simp: swap_a_for_b_def Let_def priv_get_amount_out_def succeeds amm_fee_denominator_def)

lemma swap_b_for_a_facts:
  assumes "swap_b_for_a s amount_in = Inr s'"
  shows "\<exists>out. out = amount_in * (1000 - fee_rate s) * reserve_a s
                  div (reserve_b s * 1000 + amount_in * (1000 - fee_rate s)) \<and>
           0 < out \<and> out \<le> reserve_a s \<and> 0 < amount_in \<and> 0 < reserve_a s \<and> 0 < reserve_b s \<and>
           fee_rate s \<le> 1000 \<and>
           reserve_b s' = reserve_b s + amount_in \<and> reserve_a s' = reserve_a s - out"
  using assms
  by (auto simp: swap_b_for_a_def Let_def priv_get_amount_out_def succeeds amm_fee_denominator_def)

text \<open>
  C1. Every swap, in either direction, that completes leaves the product of the
  reserves at least as large as before, and strictly larger when the fee rate is
  positive. (A swap completes only on positive reserves.)
\<close>

theorem swap_product_monotone:
  assumes "swap_a_for_b s amount_in = Inr s' \<or> swap_b_for_a s amount_in = Inr s'"
  shows "reserve_a s * reserve_b s \<le> reserve_a s' * reserve_b s' \<and>
         (0 < fee_rate s \<longrightarrow> reserve_a s * reserve_b s < reserve_a s' * reserve_b s')"
  using assms
proof
  assume "swap_a_for_b s amount_in = Inr s'"
  from swap_a_for_b_facts [OF this] obtain out where
    o: "out = amount_in * (1000 - fee_rate s) * reserve_b s
                  div (reserve_a s * 1000 + amount_in * (1000 - fee_rate s))"
    and f: "0 < out" "out \<le> reserve_b s" "0 < amount_in" "0 < reserve_a s" "0 < reserve_b s"
      "fee_rate s \<le> 1000"
    and r: "reserve_a s' = reserve_a s + amount_in" "reserve_b s' = reserve_b s - out"
    by blast
  have g: "1000 - fee_rate s \<le> 1000" by simp
  have le: "reserve_a s * reserve_b s \<le> reserve_a s' * reserve_b s'"
    unfolding r by (rule product_after_swap_le [OF cp_le [OF g o] f(2)])
  have "reserve_a s * reserve_b s < reserve_a s' * reserve_b s'" if "0 < fee_rate s"
  proof -
    have "1000 - fee_rate s < 1000" using that by simp
    from cp_less [OF this f(4) f(3) f(5) o] show ?thesis
      unfolding r using f(2) by (rule product_after_swap_less)
  qed
  with le show ?thesis by blast
next
  assume "swap_b_for_a s amount_in = Inr s'"
  from swap_b_for_a_facts [OF this] obtain out where
    o: "out = amount_in * (1000 - fee_rate s) * reserve_a s
                  div (reserve_b s * 1000 + amount_in * (1000 - fee_rate s))"
    and f: "0 < out" "out \<le> reserve_a s" "0 < amount_in" "0 < reserve_a s" "0 < reserve_b s"
      "fee_rate s \<le> 1000"
    and r: "reserve_b s' = reserve_b s + amount_in" "reserve_a s' = reserve_a s - out"
    by blast
  have g: "1000 - fee_rate s \<le> 1000" by simp
  have le: "reserve_b s * reserve_a s \<le> reserve_b s' * reserve_a s'"
    unfolding r by (rule product_after_swap_le [OF cp_le [OF g o] f(2)])
  have "reserve_b s * reserve_a s < reserve_b s' * reserve_a s'" if "0 < fee_rate s"
  proof -
    have "1000 - fee_rate s < 1000" using that by simp
    from cp_less [OF this f(5) f(3) f(4) o] show ?thesis
      unfolding r using f(2) by (rule product_after_swap_less)
  qed
  with le show ?thesis by (simp add: mult.commute)
qed


theorem swap_product_monotone_witness:
  "swap_a_for_b pool_1000 100 = Inr (pool_1000\<lparr>reserve_a := 1100, reserve_b := 910\<rparr>) \<and>
   reserve_a pool_1000 * reserve_b pool_1000
     < reserve_a (pool_1000\<lparr>reserve_a := 1100, reserve_b := 910\<rparr>)
       * reserve_b (pool_1000\<lparr>reserve_a := 1100, reserve_b := 910\<rparr>)"
proof -
  have run: "swap_a_for_b pool_1000 100 = Inr (pool_1000\<lparr>reserve_a := 1100, reserve_b := 910\<rparr>)"
    by (simp add: swap_a_for_b_def priv_get_amount_out_def amm_fee_denominator_def run_defs
        pool_1000_def pool_empty_def amm_created_def)
  have fee: "0 < fee_rate pool_1000"
    by (simp add: pool_1000_def pool_empty_def)
  from swap_product_monotone [OF disjI1 [OF run]] fee run show ?thesis
    by blast
qed

section \<open>PriceOracle: staleness (C6)\<close>

text \<open>
  C6. With a positive stored price, \<open>get_price\<close> fails at every time after
  \<open>price_timestamp + staleness_threshold\<close> (by the staleness assertion, or earlier by
  the abort of the 64-bit sum), and at the time equal to that sum it returns the
  stored price. The time of the call is a \<open>UInt64\<close>, hence below \<open>2 ^ 64\<close>.
\<close>

theorem get_price_staleness:
  assumes "0 < token_price s" and "now < u64_limit"
  shows "(price_timestamp s + staleness_threshold < now \<longrightarrow>
            get_price s now = Inl (Assertion_failed ''Price is stale'') \<or>
            get_price s now = Inl Overflow) \<and>
         (now = price_timestamp s + staleness_threshold \<longrightarrow>
            get_price s now = Inr (token_price s))"
  using assms by (auto simp: get_price_def run_defs)

theorem get_price_staleness_witness:
  "get_price oracle_priced 4601 = Inl (Assertion_failed ''Price is stale'') \<and>
   get_price oracle_priced 4600 = Inr 100"
proof -
  have p: "0 < token_price oracle_priced" and ts: "price_timestamp oracle_priced = 1000"
    and v: "token_price oracle_priced = 100"
    by (simp_all add: oracle_priced_def)
  have a: "(4601::nat) < u64_limit" and b: "(4600::nat) < u64_limit"
    by (simp_all add: u64_limit_def)
  have c: "get_price oracle_priced 4601 \<noteq> Inl Overflow"
    by (simp add: get_price_def run_defs oracle_priced_def oracle_ready_def staleness_threshold_def)
  from get_price_staleness [OF p a] get_price_staleness [OF p b] c show ?thesis
    by (simp add: ts v staleness_threshold_def)
qed

section \<open>YTAutoConverter: what the calls keep\<close>

lemmas converter_ops = converter_initialize_def configure_conversion_def deposit_yt_tokens_def
  execute_conversion_def add_maturity_def remove_maturity_def set_conversion_fee_def
  pause_converter_def unpause_converter_def emergency_disable_conversion_def
  withdraw_pt_tokens_def update_addresses_def priv_perform_market_conversion_def

lemma converter_step_executed:
  assumes "converter_step s c = Inr s'" and "\<not> reconfigures u c" and "conversion_executed s u = Some 1"
  shows "conversion_executed s' u = Some 1"
  using assms by (cases c) (auto simp: converter_ops succeeds Let_def)

lemma converter_apply_executed:
  assumes "\<not> reconfigures u c" and "conversion_executed s u = Some 1"
  shows "conversion_executed (converter_apply s c) u = Some 1"
  using assms converter_step_executed [of s c _ u]
  by (cases "converter_step s c") (simp_all add: converter_apply_def)

lemma converter_run_executed:
  assumes "list_all (\<lambda>c. \<not> reconfigures u c) cs" and "conversion_executed s u = Some 1"
  shows "conversion_executed (converter_run s cs) u = Some 1"
  using assms
proof (induction cs arbitrary: s)
  case Nil
  then show ?case by simp
next
  case (Cons c cs)
  then show ?case by (simp add: converter_apply_executed)
qed

lemma execute_conversion_latched:
  assumes "conversion_executed s u = Some 1"
  shows "\<exists>e. execute_conversion s u now user m d = Inl e"
  using assms by (simp add: execute_conversion_def run_defs split: option.splits)

lemma converter_step_threshold:
  assumes "converter_step s c = Inr s'" and "threshold_price s u = Some th" and "0 < th"
  shows "\<exists>th'. threshold_price s' u = Some th' \<and> 0 < th'"
  using assms by (cases c) (auto simp: converter_ops succeeds Let_def)

lemma converter_apply_threshold:
  assumes "\<exists>th. threshold_price s u = Some th \<and> 0 < th"
  shows "\<exists>th. threshold_price (converter_apply s c) u = Some th \<and> 0 < th"
  using assms converter_step_threshold [of s c _ u]
  by (cases "converter_step s c") (auto simp: converter_apply_def)

lemma converter_run_threshold:
  assumes "\<exists>th. threshold_price s u = Some th \<and> 0 < th"
  shows "\<exists>th. threshold_price (converter_run s cs) u = Some th \<and> 0 < th"
  using assms
  by (induction cs arbitrary: s) (simp_all add: converter_apply_threshold)

lemma threshold_check_iff:
  "execute_conversion s u now user m d = Inl (Assertion_failed ''Threshold not reached'') \<longleftrightarrow>
     cnv_is_paused s = 0 \<and> now \<le> d \<and> conversion_enabled s u = Some 1 \<and>
     conversion_executed s u = Some 0 \<and> threshold_price s u = Some 0"
  by (auto simp: execute_conversion_def priv_perform_market_conversion_def run_defs
      split: option.splits)

lemma execute_ignores_oracle_address:
  "execute_conversion (s\<lparr>oracle_address := a\<rparr>) u now user m d =
     (case execute_conversion s u now user m d of
        Inl e \<Rightarrow> Inl e | Inr s' \<Rightarrow> Inr (s'\<lparr>oracle_address := a\<rparr>))"
  by (simp add: execute_conversion_def priv_perform_market_conversion_def run_defs
      split: option.splits)

section \<open>YTAutoConverter: the threshold check reads no oracle (C10)\<close>

text \<open>
  C10. \<open>execute_conversion\<close> takes the converter's own state and no oracle state.
  It fails with ``Threshold not reached'' exactly when the earlier assertions pass
  and the stored \<open>threshold_price[sender]\<close> is 0. For every caller who has completed
  \<open>configure_conversion\<close>, the check does not fail, whatever calls to the converter
  follow. The stored oracle address is neither read nor written.
\<close>

theorem threshold_check_is_local:
  "(execute_conversion s u now user m d = Inl (Assertion_failed ''Threshold not reached'') \<longleftrightarrow>
      cnv_is_paused s = 0 \<and> now \<le> d \<and> conversion_enabled s u = Some 1 \<and>
      conversion_executed s u = Some 0 \<and> threshold_price s u = Some 0) \<and>
   (\<forall>s0 t en th mat cs. configure_conversion s0 u t en th mat = Inr s \<longrightarrow>
      execute_conversion (converter_run s cs) u now user m d
        \<noteq> Inl (Assertion_failed ''Threshold not reached'')) \<and>
   (\<forall>a. execute_conversion (s\<lparr>oracle_address := a\<rparr>) u now user m d =
      (case execute_conversion s u now user m d of
         Inl e \<Rightarrow> Inl e | Inr s' \<Rightarrow> Inr (s'\<lparr>oracle_address := a\<rparr>)))"
proof (intro conjI allI impI)
  show "execute_conversion s u now user m d = Inl (Assertion_failed ''Threshold not reached'') \<longleftrightarrow>
      cnv_is_paused s = 0 \<and> now \<le> d \<and> conversion_enabled s u = Some 1 \<and>
      conversion_executed s u = Some 0 \<and> threshold_price s u = Some 0"
    by (rule threshold_check_iff)
next
  fix s0 t en th mat cs
  assume "configure_conversion s0 u t en th mat = Inr s"
  then have "\<exists>th. threshold_price s u = Some th \<and> 0 < th"
    by (auto simp: configure_conversion_def succeeds)
  then have "\<exists>th. threshold_price (converter_run s cs) u = Some th \<and> 0 < th"
    by (rule converter_run_threshold)
  then show "execute_conversion (converter_run s cs) u now user m d
        \<noteq> Inl (Assertion_failed ''Threshold not reached'')"
    by (auto simp: threshold_check_iff)
next
  fix a
  show "execute_conversion (s\<lparr>oracle_address := a\<rparr>) u now user m d =
      (case execute_conversion s u now user m d of
         Inl e \<Rightarrow> Inl e | Inr s' \<Rightarrow> Inr (s'\<lparr>oracle_address := a\<rparr>))"
    by (rule execute_ignores_oracle_address)
qed

theorem threshold_check_is_local_witness:
  "configure_conversion converter_ready 7 10 1 100 5000 = Inr converter_configured \<and>
   execute_conversion
      (converter_run converter_configured [Deposit_yt_tokens 7 1000, Update_addresses 1 21 22 23])
      7 20 7 0 30
     \<noteq> Inl (Assertion_failed ''Threshold not reached'')"
  using threshold_check_is_local [of converter_configured 7 20 7 0 30] converter_configured_reachable
  by blast

section \<open>YTAutoConverter: one conversion per configuration (C7)\<close>

text \<open>
  No call writes \<open>yt_balance\<close> before reading it, so from the created converter on
  the slot stays unset for every account, and neither \<open>deposit_yt_tokens\<close> nor
  \<open>execute_conversion\<close> ever completes.
\<close>

lemma converter_step_no_yt:
  assumes "converter_step s c = Inr s'" and "yt_balance s = Map.empty"
  shows "yt_balance s' = Map.empty"
  using assms by (cases c) (auto simp: converter_ops succeeds Let_def)

lemma converter_run_no_yt: "yt_balance (converter_run converter_created cs) = Map.empty"
proof -
  have "yt_balance (converter_run s cs) = Map.empty" if "yt_balance s = Map.empty" for s
    using that
  proof (induction cs arbitrary: s)
    case Nil
    then show ?case by simp
  next
    case (Cons c cs)
    have "yt_balance (converter_apply s c) = Map.empty"
      using Cons.prems converter_step_no_yt [of s c]
      by (cases "converter_step s c") (simp_all add: converter_apply_def)
    then show ?case by (simp add: Cons.IH)
  qed
  then show ?thesis by (simp add: converter_created_def)
qed

lemma conversion_never_completes:
  "deposit_yt_tokens (converter_run converter_created cs) u amount \<noteq> Inr s' \<and>
   execute_conversion (converter_run converter_created cs) u now user m d \<noteq> Inr s'"
  using converter_run_no_yt [of cs]
  by (auto simp: deposit_yt_tokens_def execute_conversion_def succeeds)

text \<open>
  C7. The claim is that after \<open>configure_conversion\<close> with threshold 100 and a
  deposit of 1000 YT, \<open>execute_conversion\<close> succeeds exactly once. On the code the
  deposit itself aborts: account 7 configures on the initialised converter, and
  \<open>deposit_yt_tokens\<close> then reads \<open>yt_balance[sender]\<close>, which nothing has written;
  \<open>execute_conversion\<close> aborts at the same read.
\<close>

theorem deposit_aborts_on_unset_slot:
  "converter_initialize 1 converter_created 1 11 12 13 = Inr converter_ready \<and>
   configure_conversion converter_ready 7 10 1 100 5000 = Inr converter_configured \<and>
   deposit_yt_tokens converter_configured 7 1000 = Inl Unset_local_state \<and>
   execute_conversion converter_configured 7 20 7 965 30 = Inl Unset_local_state"
proof -
  have "deposit_yt_tokens converter_configured 7 1000 = Inl Unset_local_state"
    by (simp add: deposit_yt_tokens_def converter_configured_def converter_ready_def
        converter_created_def run_defs)
  moreover have "execute_conversion converter_configured 7 20 7 965 30 = Inl Unset_local_state"
    by (simp add: execute_conversion_def converter_configured_def converter_ready_def
        converter_created_def run_defs)
  ultimately show ?thesis
    using converter_ready_reachable converter_configured_reachable by simp
qed

text \<open>
  Where the two balance slots of the user are written, the contract does what the
  claim says: with a fee of 30 basis points the conversion of 1000 YT credits 992 PT,
  any \<open>min_pt_amount\<close> of at most 965 is met, a second call up to the deadline fails
  with ``Conversion already executed'', the call keeps failing after any calls that
  do not reconfigure the user, and \<open>configure_conversion\<close> releases the latch.
\<close>

lemma one_shot_on_written_slots:
  assumes "cnv_is_paused s = 0" and "conversion_fee s = 30" and "yt_balance s u = Some 0"
    and "pt_balance s u = Some p" and "p + 992 < u64_limit"
    and "total_conversions s + 1 < u64_limit"
    and "t0 < mat" and "now \<le> deadline" and "min_pt_amount \<le> 965"
  shows "\<exists>s1 s2 s3.
     configure_conversion s u t0 1 100 mat = Inr s1 \<and>
     deposit_yt_tokens s1 u 1000 = Inr s2 \<and>
     execute_conversion s2 u now user min_pt_amount deadline = Inr s3 \<and>
     pt_balance s3 u = Some (p + 992) \<and> yt_balance s3 u = Some 0 \<and>
     (\<forall>later. later \<le> deadline \<longrightarrow>
        execute_conversion s3 u later user min_pt_amount deadline
          = Inl (Assertion_failed ''Conversion already executed'')) \<and>
     (\<forall>cs later. list_all (\<lambda>c. \<not> reconfigures u c) cs \<longrightarrow>
        (\<exists>e. execute_conversion (converter_run s3 cs) u later user min_pt_amount deadline = Inl e)) \<and>
     (\<forall>t1 en th m s4. configure_conversion s3 u t1 en th m = Inr s4 \<longrightarrow>
        conversion_executed s4 u = Some 0)"
proof -
  define s1 where "s1 = s\<lparr>conversion_enabled := (conversion_enabled s)(u \<mapsto> 1),
            threshold_price := (threshold_price s)(u \<mapsto> 100),
            user_maturity := (user_maturity s)(u \<mapsto> mat),
            conversion_executed := (conversion_executed s)(u \<mapsto> 0)\<rparr>"
  define s2 where "s2 = s1\<lparr>yt_balance := (yt_balance s1)(u \<mapsto> 1000)\<rparr>"
  define s3 where "s3 = s2\<lparr>yt_balance := (yt_balance s2)(u \<mapsto> 0),
            pt_balance := (pt_balance s2)(u \<mapsto> p + 992),
            conversion_executed := (conversion_executed s2)(u \<mapsto> 1),
            total_conversions := total_conversions s + 1\<rparr>"
  have c1: "configure_conversion s u t0 1 100 mat = Inr s1"
    using assms by (simp add: configure_conversion_def s1_def run_defs)
  have c2: "deposit_yt_tokens s1 u 1000 = Inr s2"
    using assms by (simp add: deposit_yt_tokens_def s1_def s2_def run_defs)
  have c3: "execute_conversion s2 u now user min_pt_amount deadline = Inr s3"
    using assms
    by (simp add: execute_conversion_def priv_perform_market_conversion_def cnv_fee_denominator_def
        s1_def s2_def s3_def run_defs)
  have latch: "conversion_executed s3 u = Some 1"
    by (simp add: s3_def)
  have paused: "cnv_is_paused s3 = 0" and enabled: "conversion_enabled s3 u = Some 1"
    using assms by (simp_all add: s1_def s2_def s3_def)
  have c4: "execute_conversion s3 u later user min_pt_amount deadline
          = Inl (Assertion_failed ''Conversion already executed'')" if "later \<le> deadline" for later
    using that latch paused enabled by (simp add: execute_conversion_def run_defs)
  have c5: "\<exists>e. execute_conversion (converter_run s3 cs) u later user min_pt_amount deadline = Inl e"
    if "list_all (\<lambda>c. \<not> reconfigures u c) cs" for cs later
    by (rule execute_conversion_latched) (rule converter_run_executed [OF that latch])
  have c6: "conversion_executed s4 u = Some 0" if "configure_conversion s3 u t1 en th m = Inr s4"
    for t1 en th m s4
    using that by (auto simp: configure_conversion_def succeeds)
  have b: "pt_balance s3 u = Some (p + 992)" "yt_balance s3 u = Some 0"
    by (simp_all add: s3_def)
  from c1 c2 c3 b c4 c5 c6 show ?thesis by blast
qed

text \<open>
  In \<open>converter_funded\<close>, where account 7 has configured and its two balance slots
  are written with 1000 YT and 0 PT, the conversion completes and credits 992 PT.
\<close>

lemma conversion_on_written_slots:
  "\<exists>s'. execute_conversion converter_funded 7 20 7 965 30 = Inr s' \<and>
     pt_balance s' 7 = Some 992 \<and> yt_balance s' 7 = Some 0 \<and> conversion_executed s' 7 = Some 1"
  by (simp add: execute_conversion_def priv_perform_market_conversion_def cnv_fee_denominator_def
      converter_funded_def converter_configured_def converter_ready_def converter_created_def
      run_defs)

section \<open>Sums of balances over a finite set of accounts\<close>

lemma sum_fun_upd:
  fixes f :: "'a \<Rightarrow> nat"
  assumes "finite A"
  shows "(\<Sum>a\<in>A. (f(x := v)) a) = (if x \<in> A then (\<Sum>a\<in>A. f a) - f x + v else (\<Sum>a\<in>A. f a))"
proof (cases "x \<in> A")
  case True
  have "(\<Sum>a\<in>A. (f(x := v)) a) = (f(x := v)) x + (\<Sum>a\<in>A - {x}. (f(x := v)) a)"
    using assms True by (rule sum.remove)
  also have "(\<Sum>a\<in>A - {x}. (f(x := v)) a) = (\<Sum>a\<in>A - {x}. f a)"
    by (rule sum.cong) auto
  finally have l: "(\<Sum>a\<in>A. (f(x := v)) a) = v + (\<Sum>a\<in>A - {x}. f a)" by simp
  have "(\<Sum>a\<in>A. f a) = f x + (\<Sum>a\<in>A - {x}. f a)"
    using assms True by (rule sum.remove)
  with l True show ?thesis by simp
next
  case False
  have "(\<Sum>a\<in>A. (f(x := v)) a) = (\<Sum>a\<in>A. f a)"
    by (rule sum.cong) (use False in auto)
  with False show ?thesis by simp
qed

lemma held_upd: "held (slot(x \<mapsto> v)) = (held slot)(x := v)"
  by (rule ext) (simp add: held_def)

lemma held_Some: "slot x = Some v \<Longrightarrow> held slot x = v"
  by (simp add: held_def)

lemma sum_held_upd:
  assumes "finite A"
  shows "(\<Sum>a\<in>A. held (slot(x \<mapsto> v)) a)
           = (if x \<in> A then (\<Sum>a\<in>A. held slot a) - held slot x + v else (\<Sum>a\<in>A. held slot a))"
  unfolding held_upd by (rule sum_fun_upd [OF assms])

lemma member_le_sum_nat:
  fixes f :: "'a \<Rightarrow> nat"
  assumes "finite A" "x \<in> A"
  shows "f x \<le> (\<Sum>a\<in>A. f a)"
  using assms by (simp add: member_le_sum)

section \<open>YieldTokenization: conservation under split and redeem (C2)\<close>

lemma splitter_split_step: "split_tokens splitter_funded 7 1000 40 2000 = Inr splitter_split"
  by (simp add: split_tokens_def priv_maturity_exists_def one_year_def splitter_split_def
      splitter_funded_def splitter_ready_def tokenization_created_def run_defs)

lemma splitter_redeemed_step: "redeem_tokens splitter_split 7 3000 10 2000 = Inr splitter_redeemed"
  by (simp add: redeem_tokens_def splitter_split_def splitter_redeemed_def splitter_ready_def
      tokenization_created_def run_defs)

lemma split_tokens_effect:
  assumes "split_tokens s u now amount mat = Inr s'"
  shows "\<exists>sy pt yt. user_sy_balance s u = Some sy \<and> user_pt_balance s u = Some pt \<and>
           user_yt_balance s u = Some yt \<and> amount \<le> sy \<and>
           s' = s\<lparr>user_sy_balance := (user_sy_balance s)(u \<mapsto> sy - amount),
                  user_pt_balance := (user_pt_balance s)(u \<mapsto> pt + amount),
                  user_yt_balance := (user_yt_balance s)(u \<mapsto> yt + amount)\<rparr>"
  using assms by (auto simp: split_tokens_def succeeds Let_def)

lemma redeem_tokens_effect:
  assumes "redeem_tokens s u now amount mat = Inr s'"
  shows "\<exists>sy pt. user_sy_balance s u = Some sy \<and> user_pt_balance s u = Some pt \<and> amount \<le> pt \<and>
           s' = s\<lparr>user_pt_balance := (user_pt_balance s)(u \<mapsto> pt - amount),
                  user_sy_balance := (user_sy_balance s)(u \<mapsto> sy + amount)\<rparr>"
  using assms by (auto simp: redeem_tokens_def succeeds Let_def)

lemma splitter_step_conserves:
  assumes "finite A" and "splitter_step s c = Inr s'"
  shows "(\<Sum>a\<in>A. held (user_sy_balance s') a) + (\<Sum>a\<in>A. held (user_pt_balance s') a)
           = (\<Sum>a\<in>A. held (user_sy_balance s) a) + (\<Sum>a\<in>A. held (user_pt_balance s) a)"
proof (cases c)
  case (Split_tokens u now amount mat)
  with assms have "split_tokens s u now amount mat = Inr s'" by simp
  from split_tokens_effect [OF this] show ?thesis
    using assms(1) member_le_sum_nat [of A u "held (user_sy_balance s)"]
      member_le_sum_nat [of A u "held (user_pt_balance s)"]
    by (auto simp: sum_held_upd held_Some)
next
  case (Redeem_tokens u now amount mat)
  with assms have "redeem_tokens s u now amount mat = Inr s'" by simp
  from redeem_tokens_effect [OF this] show ?thesis
    using assms(1) member_le_sum_nat [of A u "held (user_sy_balance s)"]
      member_le_sum_nat [of A u "held (user_pt_balance s)"]
    by (auto simp: sum_held_upd held_Some)
qed

lemma splitter_step_mints_equal:
  assumes "splitter_step s c = Inr s'"
  shows "minted_by (user_pt_balance s) (user_pt_balance s') c
           = minted_by (user_yt_balance s) (user_yt_balance s') c"
proof (cases c)
  case (Split_tokens u now amount mat)
  with assms have "split_tokens s u now amount mat = Inr s'" by simp
  from split_tokens_effect [OF this] show ?thesis
    by (auto simp: Split_tokens held_def)
next
  case (Redeem_tokens u now amount mat)
  then show ?thesis by simp
qed

lemma splitter_run_conserves:
  assumes "finite A" and "splitter_run (s, p, y) cs = Inr (s', p', y')"
  shows "(\<Sum>a\<in>A. held (user_sy_balance s') a) + (\<Sum>a\<in>A. held (user_pt_balance s') a)
           = (\<Sum>a\<in>A. held (user_sy_balance s) a) + (\<Sum>a\<in>A. held (user_pt_balance s) a) \<and>
         p' + y = y' + p"
  using assms(2)
proof (induction cs arbitrary: s p y)
  case Nil
  then show ?case by simp
next
  case (Cons c cs)
  from Cons.prems obtain s1 where
    step: "splitter_step s c = Inr s1" and
    rest: "splitter_run (s1, p + minted_by (user_pt_balance s) (user_pt_balance s1) c,
                  y + minted_by (user_yt_balance s) (user_yt_balance s1) c) cs = Inr (s', p', y')"
    by (auto simp: and_then_eq_Inr)
  from Cons.IH [OF rest] splitter_step_conserves [OF assms(1) step]
    splitter_step_mints_equal [OF step]
  show ?case by simp
qed

lemma splitter_run_prefix:
  assumes "splitter_run st (xs @ ys) = Inr fin"
  shows "\<exists>mid. splitter_run st xs = Inr mid"
  using assms
proof (induction xs arbitrary: st)
  case Nil
  then show ?case by (cases st) simp
next
  case (Cons c cs)
  obtain s p y where st: "st = (s, p, y)" by (cases st)
  from Cons.prems obtain s1 where
    step: "splitter_step s c = Inr s1" and
    rest: "splitter_run (s1, p + minted_by (user_pt_balance s) (user_pt_balance s1) c,
                  y + minted_by (user_yt_balance s) (user_yt_balance s1) c) (cs @ ys) = Inr fin"
    by (auto simp: and_then_eq_Inr st)
  from Cons.IH [OF rest] step show ?case
    by (simp add: st)
qed

text \<open>
  C2. Take any sequence of \<open>split_tokens\<close> and \<open>redeem_tokens\<close> calls that all
  succeed, and any finite set \<open>A\<close> of accounts. After every prefix of the sequence
  the SY balances plus the PT balances over \<open>A\<close> sum to what they did at the start,
  and the PT minted so far equals the YT minted so far. Every single split credits
  the same \<open>amount\<close> to the sender's PT and YT balances.
\<close>

theorem split_redeem_conservation:
  assumes "finite A" and "splitter_run (s, 0, 0) cs = Inr fin"
  shows "(\<forall>n\<le>length cs. \<exists>s' minted.
           splitter_run (s, 0, 0) (take n cs) = Inr (s', minted, minted) \<and>
           (\<Sum>a\<in>A. held (user_sy_balance s') a) + (\<Sum>a\<in>A. held (user_pt_balance s') a)
             = (\<Sum>a\<in>A. held (user_sy_balance s) a) + (\<Sum>a\<in>A. held (user_pt_balance s) a)) \<and>
         (\<forall>s1 u now amount mat s2. split_tokens s1 u now amount mat = Inr s2 \<longrightarrow>
            held (user_pt_balance s2) u = held (user_pt_balance s1) u + amount \<and>
            held (user_yt_balance s2) u = held (user_yt_balance s1) u + amount)"
proof (intro conjI allI impI)
  fix s1 u now amount mat s2
  assume "split_tokens s1 u now amount mat = Inr s2"
  from split_tokens_effect [OF this]
  show "held (user_pt_balance s2) u = held (user_pt_balance s1) u + amount"
    and "held (user_yt_balance s2) u = held (user_yt_balance s1) u + amount"
    by (auto simp: held_def)
next
  fix n
  assume "n \<le> length cs"
  have "splitter_run (s, 0, 0) (take n cs @ drop n cs) = Inr fin"
    using assms(2) by simp
  then obtain mid where mid: "splitter_run (s, 0, 0) (take n cs) = Inr mid"
    using splitter_run_prefix by blast
  obtain s' p' y' where m: "mid = (s', p', y')" by (cases mid)
  from splitter_run_conserves [OF assms(1) mid [unfolded m]]
  have "(\<Sum>a\<in>A. held (user_sy_balance s') a) + (\<Sum>a\<in>A. held (user_pt_balance s') a)
           = (\<Sum>a\<in>A. held (user_sy_balance s) a) + (\<Sum>a\<in>A. held (user_pt_balance s) a)"
    and "p' = y'"
    by simp_all
  with mid m show "\<exists>s' minted.
           splitter_run (s, 0, 0) (take n cs) = Inr (s', minted, minted) \<and>
           (\<Sum>a\<in>A. held (user_sy_balance s') a) + (\<Sum>a\<in>A. held (user_pt_balance s') a)
             = (\<Sum>a\<in>A. held (user_sy_balance s) a) + (\<Sum>a\<in>A. held (user_pt_balance s) a)"
    by blast
qed

lemma splitter_example_run:
  "splitter_run (splitter_funded, 0, 0) [Split_tokens 7 1000 40 2000, Redeem_tokens 7 3000 10 2000]
     = Inr (splitter_redeemed, 40, 40)"
proof -
  have a: "minted_by (user_pt_balance splitter_funded) (user_pt_balance splitter_split)
             (Split_tokens 7 1000 40 2000) = 40"
     "minted_by (user_yt_balance splitter_funded) (user_yt_balance splitter_split)
             (Split_tokens 7 1000 40 2000) = 40"
    by (simp_all add: splitter_funded_def splitter_split_def splitter_ready_def
        tokenization_created_def held_def)
  show ?thesis
    by (simp only: splitter_run.simps splitter_step.simps splitter_split_step
        splitter_redeemed_step and_then_Inr a minted_by.simps(2) add_0 add_0_right)
qed

theorem split_redeem_conservation_witness:
  "\<exists>s' minted.
     splitter_run (splitter_funded, 0, 0) (take 1 [Split_tokens 7 1000 40 2000, Redeem_tokens 7 3000 10 2000])
       = Inr (s', minted, minted) \<and>
     (\<Sum>a\<in>{7, 8}. held (user_sy_balance s') a) + (\<Sum>a\<in>{7, 8}. held (user_pt_balance s') a) = 100"
proof -
  have f: "finite {7::nat, 8}" by simp
  have s: "(\<Sum>a\<in>{7, 8}. held (user_sy_balance splitter_funded) a)
            + (\<Sum>a\<in>{7, 8}. held (user_pt_balance splitter_funded) a) = 100"
    by (simp add: splitter_funded_def splitter_ready_def tokenization_created_def held_def)
  have l: "(1::nat) \<le> length [Split_tokens 7 1000 40 2000, Redeem_tokens 7 3000 10 2000]"
    by simp
  from split_redeem_conservation [OF f splitter_example_run]
  have "\<forall>n\<le>length [Split_tokens 7 1000 40 2000, Redeem_tokens 7 3000 10 2000]. \<exists>s' minted.
           splitter_run (splitter_funded, 0, 0)
             (take n [Split_tokens 7 1000 40 2000, Redeem_tokens 7 3000 10 2000]) = Inr (s', minted, minted) \<and>
           (\<Sum>a\<in>{7, 8}. held (user_sy_balance s') a) + (\<Sum>a\<in>{7, 8}. held (user_pt_balance s') a)
             = (\<Sum>a\<in>{7, 8}. held (user_sy_balance splitter_funded) a)
               + (\<Sum>a\<in>{7, 8}. held (user_pt_balance splitter_funded) a)"
    by (rule conjunct1)
  from this [rule_format, OF l] s show ?thesis
    by simp
qed

section \<open>PTToken and YTToken: balances against the supply (C3)\<close>







text \<open>
  Where the sender's balance slot is written, \<open>mint\<close> and \<open>burn\<close> move the balance
  and the supply together, while \<open>transfer\<close> and \<open>transfer_from\<close> debit the sender,
  credit no account and leave the supply as it was.
\<close>

lemma mint_effect:
  assumes "mint s sender to amount = Inr s'"
  shows "held (balance s') sender = held (balance s) sender + amount \<and>
         total_supply s' = total_supply s + amount \<and>
         (\<forall>a. a \<noteq> sender \<longrightarrow> balance s' a = balance s a)"
  using assms by (auto simp: mint_def succeeds held_def)

lemma burn_effect:
  assumes "burn s sender amount = Inr s'"
  shows "held (balance s') sender + amount = held (balance s) sender \<and>
         total_supply s' + amount = total_supply s \<and>
         (\<forall>a. a \<noteq> sender \<longrightarrow> balance s' a = balance s a)"
  using assms by (auto simp: burn_def succeeds held_def)

lemma transfer_effect:
  assumes "transfer s sender to amount = Inr s'"
  shows "held (balance s') sender + amount = held (balance s) sender \<and>
         total_supply s' = total_supply s \<and> 0 < amount \<and>
         (\<forall>a. a \<noteq> sender \<longrightarrow> balance s' a = balance s a)"
  using assms by (auto simp: transfer_def succeeds held_def)

lemma transfer_from_effect:
  assumes "transfer_from s sender from_addr to amount = Inr s'"
  shows "held (balance s') sender + amount = held (balance s) sender \<and>
         total_supply s' = total_supply s \<and> 0 < amount \<and>
         (\<forall>a. a \<noteq> sender \<longrightarrow> balance s' a = balance s a)"
  using assms by (auto simp: transfer_from_def succeeds held_def)

text \<open>
  In \<open>ledger_10\<close>, where the balance slot of account 1 is written, a transfer of 4
  by account 1 leaves the balances at 6 against a supply of 10.
\<close>

lemma transfer_on_written_slot:
  "\<exists>s'. transfer ledger_10 1 2 4 = Inr s' \<and> balance s' = [1 \<mapsto> 6] \<and> total_supply s' = 10"
  by (simp add: transfer_def ledger_10_def token_ready_def token_created_def run_defs)


section \<open>StakingDapp: what the calls keep\<close>

text \<open>
  \<open>_calculate_reward_internal\<close> starts with a read of \<open>staked_amount[sender]\<close>, and
  \<open>stake\<close>, \<open>unstake\<close>, \<open>claim_rewards\<close>, \<open>compound_rewards\<close> and
  \<open>emergency_withdraw\<close> each reach that read, or their own read of the slot, before
  any statement writes it. So while the slot is unset for an account, none of them
  completes for that account, and the slot stays unset after every call.
\<close>

lemmas staking_ops = staking_initialize_def stake_def unstake_def claim_rewards_def
  update_reward_parameters_def emergency_withdraw_def pause_staking_def unpause_staking_def
  compound_rewards_def

lemma reward_query_unset:
  assumes "staked_amount s u = None"
  shows "priv_calculate_reward_internal s u t = Inl Unset_local_state"
  using assms by (simp add: priv_calculate_reward_internal_def local_get_def)

lemma update_rewards_unset:
  assumes "staked_amount s u = None"
  shows "priv_update_rewards s u t = Inl Unset_local_state"
  using assms by (simp add: priv_update_rewards_def reward_query_unset)






section \<open>StakingDapp: accrual (C5)\<close>

text \<open>
  On the initialised contract the first \<open>stake\<close> of an account aborts at the read
  of its unset \<open>staked_amount\<close> slot, and so does the query of its pending reward.
\<close>

lemma first_stake_aborts:
  "stake staking_ready 7 0 1000 = Inl Unset_local_state \<and>
   calculate_pending_rewards staking_ready 7 2000000 = Inl Unset_local_state"
  by (simp add: stake_def calculate_pending_rewards_def update_rewards_unset reward_query_unset
      staking_ready_def staking_created_def require_def)

text \<open>
  Where the \<open>staked_amount\<close> slot of an account is written with 0, a \<open>stake\<close> of
  1000 units at time \<open>t0\<close> records a position of 1000 units since \<open>t0\<close>.
\<close>

lemma stake_on_written_slot:
  assumes "stk_is_paused s = 0" and "staked_amount s u = Some 0"
    and "total_staked s + 1000 < u64_limit"
  shows "stake s u t0 1000 =
     Inr (s\<lparr>last_reward_time := (last_reward_time s)(u \<mapsto> t0),
            staked_amount := (staked_amount s)(u \<mapsto> 1000),
            total_staked := total_staked s + 1000\<rparr>)"
  using assms
  by (simp add: stake_def priv_update_rewards_def priv_calculate_reward_internal_def run_defs)

text \<open>
  C5, as amended. With \<open>reward_amount = 5\<close>, \<open>reward_interval = 10\<close> and
  \<open>precision_factor = 10 ^ 9\<close>, a position whose slots record 1000 staked units
  since time \<open>t0\<close> and a reward balance of 0 has pending reward 0 after 100 seconds
  and pending reward 1 after 2,000,000 seconds, since \<open>200000 * 5 * 1000 = 10 ^ 9\<close>
  and \<open>10 ^ 9 div 10 ^ 9 = 1\<close>. A \<open>claim_rewards\<close> call at that time, on a
  contract that is not paused, sets the reward balance to 0 and the last reward
  time to the time of the call, and adds exactly 1 to \<open>total_rewards_distributed\<close>
  (it aborts if that sum leaves the 64-bit range); the pending reward is 0 afterwards.
\<close>

theorem staking_accrual:
  assumes "reward_amount s = 5" and "reward_interval s = 10"
    and "staked_amount s u = Some 1000" and "last_reward_time s u = Some t0"
    and "reward_balance s u = Some 0"
  shows "calculate_pending_rewards s u (t0 + 100) = Inr 0 \<and>
    calculate_pending_rewards s u (t0 + 2000000) = Inr 1 \<and>
    claim_rewards s u (t0 + 2000000) =
      (if stk_is_paused s \<noteq> 0 then Inl (Assertion_failed ''Staking is paused'')
       else if total_rewards_distributed s + 1 < u64_limit
       then Inr (s\<lparr>reward_balance := (reward_balance s)(u \<mapsto> 0),
                   last_reward_time := (last_reward_time s)(u \<mapsto> t0 + 2000000),
                   total_rewards_distributed := total_rewards_distributed s + 1\<rparr>)
       else Inl Overflow) \<and>
    calculate_pending_rewards
      (s\<lparr>reward_balance := (reward_balance s)(u \<mapsto> 0),
         last_reward_time := (last_reward_time s)(u \<mapsto> t0 + 2000000),
         total_rewards_distributed := total_rewards_distributed s + 1\<rparr>) u (t0 + 2000000) = Inr 0"
proof -
  have p100: "priv_calculate_reward_internal s u (t0 + 100) = Inr 0"
    using assms by (simp add: priv_calculate_reward_internal_def precision_factor_def run_defs)
  have p2m: "priv_calculate_reward_internal s u (t0 + 2000000) = Inr 1"
    using assms by (simp add: priv_calculate_reward_internal_def precision_factor_def run_defs)
  have settle: "priv_update_rewards s u (t0 + 2000000) =
      Inr (s\<lparr>reward_balance := (reward_balance s)(u \<mapsto> 1),
             last_reward_time := (last_reward_time s)(u \<mapsto> t0 + 2000000)\<rparr>)"
    using assms by (simp add: priv_update_rewards_def p2m run_defs)
  have claim: "claim_rewards s u (t0 + 2000000) =
      (if stk_is_paused s \<noteq> 0 then Inl (Assertion_failed ''Staking is paused'')
       else if total_rewards_distributed s + 1 < u64_limit
       then Inr (s\<lparr>reward_balance := (reward_balance s)(u \<mapsto> 0),
                   last_reward_time := (last_reward_time s)(u \<mapsto> t0 + 2000000),
                   total_rewards_distributed := total_rewards_distributed s + 1\<rparr>)
       else Inl Overflow)"
    by (simp add: claim_rewards_def settle require_def add64_def local_get_def)
  have after: "priv_calculate_reward_internal
      (s\<lparr>reward_balance := (reward_balance s)(u \<mapsto> 0),
         last_reward_time := (last_reward_time s)(u \<mapsto> t0 + 2000000),
         total_rewards_distributed := total_rewards_distributed s + 1\<rparr>) u (t0 + 2000000) = Inr 0"
    using assms by (simp add: priv_calculate_reward_internal_def run_defs)
  from p100 p2m claim after show ?thesis
    by (simp only: calculate_pending_rewards_def simp_thms)
qed

theorem staking_accrual_witness:
  "calculate_pending_rewards position_1000 7 100 = Inr 0 \<and>
   calculate_pending_rewards position_1000 7 2000000 = Inr 1 \<and>
   claim_rewards position_1000 7 2000000 = Inr position_claimed \<and>
   calculate_pending_rewards position_claimed 7 2000000 = Inr 0"
proof -
  have h: "reward_amount position_1000 = 5" "reward_interval position_1000 = 10"
    "staked_amount position_1000 7 = Some 1000" "last_reward_time position_1000 7 = Some 0"
    "reward_balance position_1000 7 = Some 0"
    by (simp_all add: position_1000_def staking_ready_def staking_created_def)
  have e: "position_1000\<lparr>reward_balance := (reward_balance position_1000)(7 \<mapsto> 0),
         last_reward_time := (last_reward_time position_1000)(7 \<mapsto> 0 + 2000000),
         total_rewards_distributed := total_rewards_distributed position_1000 + 1\<rparr> = position_claimed"
    by (simp add: position_1000_def position_claimed_def staking_ready_def staking_created_def)
  have g: "stk_is_paused position_1000 = 0"
    "total_rewards_distributed position_1000 + 1 < u64_limit"
    by (simp_all add: position_1000_def staking_ready_def staking_created_def u64_limit_def)
  from staking_accrual [OF h] show ?thesis
    unfolding e using g by simp
qed

text \<open>
  The claim has a position that stakes 1000 units and a pending reward of 1000 after
  2,000,000 seconds. On the initialised contract the \<open>stake\<close> of account 7 aborts,
  and so does the query of its pending reward at time 2000000; where the slots of
  the position are written, the contract computes 1.
\<close>

theorem staking_accrual_counterexample:
  "staking_initialize 1 staking_created 1 ''Reward'' ''RWD'' = Inr staking_ready \<and>
   stake staking_ready 7 0 1000 = Inl Unset_local_state \<and>
   calculate_pending_rewards staking_ready 7 2000000 = Inl Unset_local_state \<and>
   calculate_pending_rewards position_1000 7 2000000 = Inr 1"
proof -
  have "calculate_pending_rewards position_1000 7 2000000 = Inr 1"
    by (simp add: calculate_pending_rewards_def priv_calculate_reward_internal_def
        precision_factor_def position_1000_def staking_ready_def staking_created_def run_defs)
  with staking_ready_reachable first_stake_aborts show ?thesis by simp
qed

section \<open>StakingDapp: emergency withdrawal (C9)\<close>








section \<open>SimpleAMM: deposit and immediate withdrawal (C8)\<close>







text \<open>
  On the initialised pool the first deposit aborts at the read of the unset slot.
\<close>

lemma first_deposit_aborts: "add_liquidity pool_empty 2 100 100 = Inl Unset_local_state"
  by (simp add: add_liquidity_def priv_sqrt_def pool_empty_def amm_created_def run_defs)











end
